theory Spec2Isabelle
  imports Complex_Main
begin

section \<open>Python values and exceptions\<close>

text \<open>
  The crawler moves decoded JSON payloads, dictionaries built from them and database
  column values around. They are modelled by one datatype of Python values. A
  dictionary is an association list with distinct keys (the decoder's output, or a
  dict display of the source); a Python float is the exact rational it stands for
  (the rounding of float arithmetic is modelled where an integer is read off the
  result, in \<open>datetime.timestamp\<close>, and not elsewhere); a \<open>datetime\<close> is its number of microseconds since the
  epoch (the local time zone is taken to be UTC).
\<close>

datatype pyval =
    PNone
  | PBool bool
  | PInt int
  | PFloat rat
  | PStr string
  | PDateTime int
  | PList "pyval list"
  | PDict "(string \<times> pyval) list"

text \<open>A subscript is a string key or an integer index.\<close>

datatype key = K string | I int

text \<open>
  The URLs that \<open>fetch.py\<close> formats. The f-string is kept as its structure: the
  routing region and the values substituted into the path and the query string.
  \<open>MatchListUrl region puuid startTime start count\<close> is
  \<open>.../lol/match/v5/matches/by-puuid/{puuid}/ids?startTime=..&queue=420&start=..&count=..\<close>.
\<close>

datatype url =
    RankPageUrl string string string int
  | HighRankUrl string string
  | SummonerUrl string pyval
  | MatchListUrl string pyval int int int
  | MatchDataUrl string pyval
  | MatchTimelineUrl string pyval

text \<open>
  Exceptions. \<open>HttpError status url\<close> is
  \<open>Exception(f"Error: {response.status_code} response from {url}")\<close>;
  \<open>Wrapped msg e\<close> is \<open>Exception(f"{msg}: {e}")\<close>, the re-raise of the
  \<open>except Exception as e\<close> handlers; \<open>MatchError match_id e\<close> is the re-raise of
  \<open>get_match_info\<close>, whose message carries the match id.
\<close>

datatype exn =
    AttributeError string
  | KeyError key
  | IndexError
  | TypeError
  | ValueError
  | ZeroDivisionError
  | ConnectionError
  | SQLAlchemyError
  | HttpError int url
  | Wrapped string exn
  | MatchError pyval exn

subsection \<open>Subscripts, iteration, truth values\<close>

text \<open>\<open>xs[i]\<close>: an index below zero counts from the end of the sequence.\<close>

definition list_index :: "'a list \<Rightarrow> int \<Rightarrow> exn + 'a" where
  "list_index xs i =
     (if 0 \<le> i \<and> i < int (length xs) then Inr (xs ! nat i)
      else if i < 0 \<and> - i \<le> int (length xs) then Inr (xs ! nat (int (length xs) + i))
      else Inl IndexError)"

fun getitem :: "pyval \<Rightarrow> key \<Rightarrow> exn + pyval" where
  "getitem (PDict kvs) (K k) =
     (case map_of kvs k of None \<Rightarrow> Inl (KeyError (K k)) | Some v \<Rightarrow> Inr v)"
| "getitem (PDict kvs) (I i) = Inl (KeyError (I i))"
| "getitem (PList xs) (I i) = list_index xs i"
| "getitem (PList xs) (K k) = Inl TypeError"
| "getitem (PStr s) (I i) = map_sum id (\<lambda>c. PStr [c]) (list_index s i)"
| "getitem (PStr s) (K k) = Inl TypeError"
| "getitem _ _ = Inl TypeError"

text \<open>\<open>v[k1][k2]...\<close>: the subscripts are applied from left to right.\<close>

fun getpath :: "pyval \<Rightarrow> key list \<Rightarrow> exn + pyval" where
  "getpath v [] = Inr v"
| "getpath v (k # ks) = (case getitem v k of Inl e \<Rightarrow> Inl e | Inr v' \<Rightarrow> getpath v' ks)"

text \<open>\<open>for x in v\<close>: a list gives its elements, a dict its keys, a string its characters.\<close>

fun py_iter :: "pyval \<Rightarrow> exn + pyval list" where
  "py_iter (PList xs) = Inr xs"
| "py_iter (PDict kvs) = Inr (map (\<lambda>kv. PStr (fst kv)) kvs)"
| "py_iter (PStr s) = Inr (map (\<lambda>c. PStr [c]) s)"
| "py_iter _ = Inl TypeError"

text \<open>\<open>len(v)\<close>.\<close>

fun py_len :: "pyval \<Rightarrow> exn + int" where
  "py_len (PList xs) = Inr (int (length xs))"
| "py_len (PDict kvs) = Inr (int (length kvs))"
| "py_len (PStr s) = Inr (int (length s))"
| "py_len _ = Inl TypeError"

text \<open>The truth value of an object, as \<open>not v\<close> and \<open>if v\<close> take it.\<close>

fun truthy :: "pyval \<Rightarrow> bool" where
  "truthy PNone = False"
| "truthy (PBool b) = b"
| "truthy (PInt i) = (i \<noteq> 0)"
| "truthy (PFloat r) = (r \<noteq> 0)"
| "truthy (PStr s) = (s \<noteq> [])"
| "truthy (PDateTime t) = True"
| "truthy (PList xs) = (xs \<noteq> [])"
| "truthy (PDict kvs) = (kvs \<noteq> [])"

subsection \<open>Numbers\<close>

text \<open>The numeric value of a bool, an int or a float; other objects have none.\<close>

fun num_of :: "pyval \<Rightarrow> rat option" where
  "num_of (PBool b) = Some (if b then 1 else 0)"
| "num_of (PInt i) = Some (of_int i)"
| "num_of (PFloat r) = Some r"
| "num_of _ = None"

text \<open>
  \<open>a > b\<close> and \<open>a >= b\<close>: numbers compare by value, datetimes with datetimes;
  anything else raises TypeError.
\<close>

fun py_gt :: "pyval \<Rightarrow> pyval \<Rightarrow> exn + bool" where
  "py_gt (PDateTime a) (PDateTime b) = Inr (a > b)"
| "py_gt a b =
     (case (num_of a, num_of b) of (Some x, Some y) \<Rightarrow> Inr (x > y) | _ \<Rightarrow> Inl TypeError)"

fun py_ge :: "pyval \<Rightarrow> pyval \<Rightarrow> exn + bool" where
  "py_ge (PDateTime a) (PDateTime b) = Inr (a \<ge> b)"
| "py_ge a b =
     (case (num_of a, num_of b) of (Some x, Some y) \<Rightarrow> Inr (x \<ge> y) | _ \<Rightarrow> Inl TypeError)"

text \<open>\<open>a + b\<close> on numbers (the only use in the source is \<open>+= 1\<close> on a counter).\<close>

fun py_add :: "pyval \<Rightarrow> pyval \<Rightarrow> exn + pyval" where
  "py_add (PInt a) (PInt b) = Inr (PInt (a + b))"
| "py_add (PInt a) (PBool b) = Inr (PInt (a + (if b then 1 else 0)))"
| "py_add (PBool a) (PInt b) = Inr (PInt ((if a then 1 else 0) + b))"
| "py_add (PBool a) (PBool b) = Inr (PInt ((if a then 1 else 0) + (if b then 1 else 0)))"
| "py_add a b =
     (case (num_of a, num_of b) of (Some x, Some y) \<Rightarrow> Inr (PFloat (x + y)) | _ \<Rightarrow> Inl TypeError)"

text \<open>
  \<open>int(s)\<close> on a string: surrounding whitespace is stripped, then an optional sign and
  decimal digits, where single underscores may separate digits.
\<close>

definition is_space :: "char \<Rightarrow> bool" where
  "is_space c = (of_char c \<in> {9, 10, 11, 12, 13, 32 :: nat})"

definition strip :: "string \<Rightarrow> string" where
  "strip s = rev (dropWhile is_space (rev (dropWhile is_space s)))"

definition digit_val :: "char \<Rightarrow> nat option" where
  "digit_val c = (let n = (of_char c :: nat) in if 48 \<le> n \<and> n \<le> 57 then Some (n - 48) else None)"

fun digits_acc :: "bool \<Rightarrow> nat \<Rightarrow> string \<Rightarrow> nat option" where
  "digits_acc d acc [] = (if d then Some acc else None)"
| "digits_acc d acc (c # cs) =
     (if c = CHR ''_'' then (if d then digits_acc False acc cs else None)
      else case digit_val c of None \<Rightarrow> None | Some v \<Rightarrow> digits_acc True (10 * acc + v) cs)"

definition int_of_string :: "string \<Rightarrow> int option" where
  "int_of_string s =
     (case strip s of
        [] \<Rightarrow> None
      | c # cs \<Rightarrow>
          if c = CHR ''-'' then map_option (\<lambda>n. - int n) (digits_acc False 0 cs)
          else if c = CHR ''+'' then map_option int (digits_acc False 0 cs)
          else map_option int (digits_acc False 0 (c # cs)))"

text \<open>\<open>int(v)\<close>: a float is truncated towards zero.\<close>

fun py_int :: "pyval \<Rightarrow> exn + int" where
  "py_int (PInt i) = Inr i"
| "py_int (PBool b) = Inr (if b then 1 else 0)"
| "py_int (PFloat r) = Inr (if r \<ge> 0 then \<lfloor>r\<rfloor> else \<lceil>r\<rceil>)"
| "py_int (PStr s) = (case int_of_string s of None \<Rightarrow> Inl ValueError | Some i \<Rightarrow> Inr i)"
| "py_int _ = Inl TypeError"

text \<open>\<open>a / b\<close> on numbers: true division, which raises on a zero divisor.\<close>

definition true_div :: "rat \<Rightarrow> rat \<Rightarrow> exn + rat" where
  "true_div a b = (if b = 0 then Inl ZeroDivisionError else Inr (a / b))"

text \<open>The \<open>except Exception as e: raise Exception(f"{msg}: {e}")\<close> handler.\<close>

definition wrap :: "string \<Rightarrow> exn + 'a \<Rightarrow> exn + 'a" where
  "wrap msg r = (case r of Inl e \<Rightarrow> Inl (Wrapped msg e) | Inr v \<Rightarrow> Inr v)"

text \<open>Sequencing of computations that may raise: the first exception wins.\<close>

fun ebind :: "exn + 'a \<Rightarrow> ('a \<Rightarrow> exn + 'b) \<Rightarrow> exn + 'b" where
  "ebind (Inl e) f = Inl e"
| "ebind (Inr v) f = f v"

section \<open>fetch.py\<close>

text \<open>
  An instance is its attribute dictionary: reading an attribute that was never set
  raises AttributeError.
\<close>

type_synonym obj = "string \<rightharpoonup> pyval"

definition getattr :: "obj \<Rightarrow> string \<Rightarrow> exn + pyval" where
  "getattr self name = (case self name of None \<Rightarrow> Inl (AttributeError name) | Some v \<Rightarrow> Inr v)"

text \<open>
  The network and the clock are the environment. \<open>replies\<close> is what the server answers
  to the coming requests, in order (\<open>Inl\<close> when \<open>session.get\<close> itself raises); once the
  script is used up the network is down and \<open>session.get\<close> raises ConnectionError.
  \<open>requests\<close> logs the URLs requested and \<open>sleeps\<close> the arguments of \<open>time.sleep\<close>.
  A response body that is not JSON is \<open>None\<close>: \<open>response.json()\<close> raises ValueError.
  Header names are held in the case the source asks for them.
\<close>

record response =
  status_code :: int
  headers :: "string \<rightharpoonup> string"
  body :: "pyval option"

record world =
  replies :: "(exn + response) list"
  requests :: "url list"
  sleeps :: "pyval list"

definition response_json :: "response \<Rightarrow> exn + pyval" where
  "response_json r = (case body r of None \<Rightarrow> Inl ValueError | Some v \<Rightarrow> Inr v)"

text \<open>\<open>response.headers.get(name, default)\<close>.\<close>

definition headers_get :: "response \<Rightarrow> string \<Rightarrow> pyval \<Rightarrow> pyval" where
  "headers_get r name dflt = (case headers r name of None \<Rightarrow> dflt | Some s \<Rightarrow> PStr s)"

text \<open>
  \<open>BaseFetcher.__init__\<close> sets \<open>api_key\<close>, \<open>retry_timer\<close>, \<open>retry_count\<close> and
  \<open>session\<close>; the session is the environment above.
\<close>

definition BaseFetcher_init :: "pyval \<Rightarrow> obj" where
  "BaseFetcher_init api_key =
     [''api_key'' \<mapsto> api_key, ''retry_timer'' \<mapsto> PInt 0, ''retry_count'' \<mapsto> PInt 0]"

text \<open>
  \<open>BaseFetcher.fetch\<close>. One round of the \<open>while True\<close> loop has three parts.
  First the pending backoff: \<open>if self.retry_timer > 0: time.sleep(...); self.retry_timer = 0\<close>.
\<close>

definition backoff :: "obj \<times> world \<Rightarrow> exn + obj \<times> world" where
  "backoff sw =
     (case sw of (self, w) \<Rightarrow>
        ebind (getattr self ''retry_timer'') (\<lambda>t.
        ebind (py_gt t (PInt 0)) (\<lambda>pending.
          Inr (if pending
               then (self(''retry_timer'' \<mapsto> PInt 0), w\<lparr>sleeps := sleeps w @ [t]\<rparr>)
               else (self, w)))))"

text \<open>
  Then \<open>self.session.get(url, headers={"X-Riot-Token": f"{self.api_key}"})\<close>: the next
  reply of the script.
\<close>

definition session_get :: "url \<Rightarrow> obj \<Rightarrow> world \<Rightarrow> (exn + response) \<times> world" where
  "session_get u self w =
     (case getattr self ''api_key'' of
        Inl e \<Rightarrow> (Inl e, w)
      | Inr token \<Rightarrow>
          (case replies w of
             [] \<Rightarrow> (Inl ConnectionError, w\<lparr>requests := requests w @ [u]\<rparr>)
           | r # rs \<Rightarrow> (r, w\<lparr>replies := rs, requests := requests w @ [u]\<rparr>)))"

text \<open>
  Then the branches on the status code. The result is \<open>Some\<close> when the call ends
  (a return or a raise) and \<open>None\<close> when the loop goes round again. The 429 branch
  formats a message that reads \<open>self.region\<close> and \<open>self.retry_timer\<close>; the last
  two branches read \<open>self.retry_counter\<close>.
\<close>

definition on_response :: "url \<Rightarrow> response \<Rightarrow> obj \<Rightarrow> (exn + pyval) option \<times> obj" where
  "on_response u resp self =
     (if status_code resp = 200 then
        (Some (response_json resp), self(''retry_count'' \<mapsto> PInt 0))
      else if status_code resp = 429 then
        (case py_int (headers_get resp ''Retry-After'' (PInt 1)) of
           Inl e \<Rightarrow> (Some (Inl e), self)
         | Inr n \<Rightarrow>
             (let self' = self(''retry_timer'' \<mapsto> PInt n) in
              case ebind (getattr self' ''region'') (\<lambda>reg. getattr self' ''retry_timer'') of
                Inl e \<Rightarrow> (Some (Inl e), self')
              | Inr _ \<Rightarrow> (None, self')))
      else
        (case ebind (getattr self ''retry_counter'') (\<lambda>c. py_ge c (PInt 2)) of
           Inl e \<Rightarrow> (Some (Inl e), self)
         | Inr True \<Rightarrow> (Some (Inl (HttpError (status_code resp) u)), self)
         | Inr False \<Rightarrow>
             (case ebind (getattr self ''retry_counter'') (\<lambda>c. py_add c (PInt 1)) of
                Inl e \<Rightarrow> (Some (Inl e), self)
              | Inr c' \<Rightarrow> (None, self(''retry_counter'' \<mapsto> c')))))"

definition fetch_round :: "url \<Rightarrow> obj \<times> world \<Rightarrow> (exn + pyval) option \<times> obj \<times> world" where
  "fetch_round u sw =
     (case backoff sw of
        Inl e \<Rightarrow> (Some (Inl e), sw)
      | Inr (self1, w1) \<Rightarrow>
          (case session_get u self1 w1 of
             (Inl e, w2) \<Rightarrow> (Some (Inl e), self1, w2)
           | (Inr resp, w2) \<Rightarrow>
               (case on_response u resp self1 of (r, self2) \<Rightarrow> (r, self2, w2))))"

lemma backoff_replies: "backoff (self, w) = Inr (self1, w1) \<Longrightarrow> replies w1 = replies w"
  by (cases "getattr self ''retry_timer''"; cases "py_gt (projr (getattr self ''retry_timer'')) (PInt 0)")
     (auto simp: backoff_def split: if_splits)

lemma session_get_replies:
  "session_get u self w = (r, w') \<Longrightarrow>
     length (replies w') \<le> length (replies w) \<and>
     (\<forall>resp. r = Inr resp \<longrightarrow> length (replies w') < length (replies w))"
  by (auto simp: session_get_def split: sum.splits list.splits)

lemma fetch_round_replies:
  assumes "fetch_round u (self, w) = (r, self', w')"
  shows "length (replies w') \<le> length (replies w)"
    and "r = None \<Longrightarrow> length (replies w') < length (replies w)"
    and "r = Some (Inr v) \<Longrightarrow> length (replies w') < length (replies w)"
proof -
  show "length (replies w') \<le> length (replies w)"
    using assms
    by (auto simp: fetch_round_def split: sum.splits prod.splits
             dest!: backoff_replies session_get_replies)
  show "r = None \<Longrightarrow> length (replies w') < length (replies w)"
    using assms
    by (auto simp: fetch_round_def split: sum.splits prod.splits
             dest!: backoff_replies session_get_replies)
  show "r = Some (Inr v) \<Longrightarrow> length (replies w') < length (replies w)"
    using assms
    by (auto simp: fetch_round_def split: sum.splits prod.splits
             dest!: backoff_replies session_get_replies)
qed

function fetch :: "url \<Rightarrow> obj \<times> world \<Rightarrow> (exn + pyval) \<times> obj \<times> world" where
  "fetch u (self, w) =
     (case fetch_round u (self, w) of
        (Some r, self', w') \<Rightarrow> (r, self', w')
      | (None, self', w') \<Rightarrow> fetch u (self', w'))"
  by pat_completeness auto
termination
  by (relation "measure (\<lambda>(u, self, w). length (replies w))")
     (auto dest: fetch_round_replies(2) [OF sym])

declare fetch.simps [simp del]

lemma fetch_replies:
  "fetch u (self, w) = (r, self', w') \<Longrightarrow>
     length (replies w') \<le> length (replies w) \<and>
     (\<forall>v. r = Inr v \<longrightarrow> length (replies w') < length (replies w))"
proof (induction u "(self, w)" arbitrary: self w rule: fetch.induct)
  case (1 u self w)
  obtain ro self1 w1 where fr: "fetch_round u (self, w) = (ro, self1, w1)"
    by (cases "fetch_round u (self, w)") auto
  show ?case
  proof (cases ro)
    case None
    with fr "1.prems" have rec: "fetch u (self1, w1) = (r, self', w')"
      by (simp add: fetch.simps [of u self w])
    have "length (replies w') \<le> length (replies w1) \<and>
          (\<forall>v. r = Inr v \<longrightarrow> length (replies w') < length (replies w1))"
      by (rule "1.hyps" [OF _ refl refl rec]) (simp add: fr None)
    with fetch_round_replies(2) [OF fr None]
    show ?thesis by auto
  next
    case (Some x)
    with fr "1.prems" have "x = r" "self1 = self'" "w1 = w'"
      by (simp_all add: fetch.simps [of u self w])
    with fetch_round_replies(1,3) [OF fr] Some show ?thesis by auto
  qed
qed

subsection \<open>The timestamp of a datetime\<close>

text \<open>
  \<open>start_date.timestamp()\<close> is a double: for a naive datetime it is
  \<open>s + microsecond / 1e6\<close>, where \<open>s\<close> is the whole number of seconds since the
  epoch. The division and the sum are each rounded to the nearest double, ties to
  even. \<open>to_double\<close> is that rounding, for values far below the largest double, as
  timestamps are: the value is brought to 53 significant bits, the last of which has
  weight \<open>2 ^ (e - 52)\<close> when the value lies between \<open>2 ^ e\<close> and \<open>2 ^ (e + 1)\<close>.
\<close>

fun bit_length :: "nat \<Rightarrow> nat" where
  "bit_length n = (if n = 0 then 0 else Suc (bit_length (n div 2)))"

declare bit_length.simps [simp del]

definition pow2 :: "int \<Rightarrow> rat" where
  "pow2 e = (if e \<ge> 0 then 2 ^ nat e else 1 / 2 ^ nat (- e))"

text \<open>The \<open>e\<close> with \<open>2 ^ e \<le> x < 2 ^ (e + 1)\<close>, for a positive \<open>x\<close>.\<close>

definition binary_exponent :: "rat \<Rightarrow> int" where
  "binary_exponent x =
     (if x \<ge> 1 then int (bit_length (nat \<lfloor>x\<rfloor>)) - 1
      else (let k = int (bit_length (nat \<lfloor>1 / x\<rfloor>)) - 1
            in if x = pow2 (- k) then - k else - k - 1))"

definition round_half_even :: "rat \<Rightarrow> int" where
  "round_half_even x =
     (let n = \<lfloor>x\<rfloor>; d = x - of_int n
      in if d < 1 / 2 then n else if d > 1 / 2 then n + 1 else if even n then n else n + 1)"

definition to_double :: "rat \<Rightarrow> rat" where
  "to_double x =
     (if x = 0 then 0
      else (let q = pow2 (max (binary_exponent \<bar>x\<bar>) (- 1022) - 52)
            in of_int (round_half_even (x / q)) * q))"

text \<open>\<open>d.timestamp()\<close> for the datetime \<open>d\<close> that is \<open>t\<close> microseconds after the epoch.\<close>

definition datetime_timestamp :: "int \<Rightarrow> rat" where
  "datetime_timestamp t =
     to_double (to_double (of_int (t div 1000000)) +
                to_double (of_int (t mod 1000000) / 1000000))"

text \<open>
  \<open>MainRegionFetcher\<close>: the instance holds its \<open>region\<close> and a \<open>BaseFetcher\<close> of its
  own; the methods below take the region as an argument and thread the base fetcher.
  \<open>int(start_date.timestamp())\<close> is that double truncated towards zero; it is computed
  before the \<open>try\<close>.
\<close>

definition whole_seconds :: "int \<Rightarrow> int" where
  "whole_seconds t =
     (let ts = datetime_timestamp t in if ts \<ge> 0 then \<lfloor>ts\<rfloor> else \<lceil>ts\<rceil>)"

definition timestamp_seconds :: "pyval \<Rightarrow> exn + int" where
  "timestamp_seconds d =
     (case d of
        PDateTime t \<Rightarrow> Inr (whole_seconds t)
      | _ \<Rightarrow> Inl (AttributeError ''timestamp''))"

definition get_match_list ::
  "string \<Rightarrow> pyval \<Rightarrow> pyval \<Rightarrow> int \<Rightarrow> obj \<times> world \<Rightarrow> (exn + pyval) \<times> obj \<times> world" where
  "get_match_list reg pu start_date start_value sw =
     (case timestamp_seconds start_date of
        Inl e \<Rightarrow> (Inl e, sw)
      | Inr timestamp \<Rightarrow>
          (case fetch (MatchListUrl reg pu timestamp start_value 100) sw of
             (r, sw') \<Rightarrow> (wrap ''Error occured on get_match_list'' r, sw')))"

definition get_match_data :: "string \<Rightarrow> pyval \<Rightarrow> obj \<times> world \<Rightarrow> (exn + pyval) \<times> obj \<times> world" where
  "get_match_data reg mid sw =
     (case fetch (MatchDataUrl reg mid) sw of
        (r, sw') \<Rightarrow> (wrap ''Error occured on get_match_data'' r, sw'))"

lemma get_match_list_replies:
  "get_match_list reg pu sd sv (self, w) = (r, self', w') \<Longrightarrow>
     length (replies w') \<le> length (replies w) \<and>
     (\<forall>v. r = Inr v \<longrightarrow> length (replies w') < length (replies w))"
  by (auto simp: get_match_list_def wrap_def split: sum.splits prod.splits dest: fetch_replies)

lemma get_match_data_replies:
  "get_match_data reg mid (self, w) = (r, self', w') \<Longrightarrow>
     length (replies w') \<le> length (replies w)"
  by (auto simp: get_match_data_def split: prod.splits dest: fetch_replies)

section \<open>database.py\<close>

text \<open>
  A mapping handed to the ORM is a Python dict; a table is the list of its rows in
  insertion order. The key columns and the two timestamps that the queries order by
  are typed, the other columns hold the Python value that was written (\<open>PNone\<close> is
  NULL). \<open>now\<close> is the database clock that \<open>func.now()\<close> reads. The store is taken
  to be reachable: the only SQLAlchemyError is a violated constraint of the schema
  (\<open>puuid\<close> is unique and not null); filters compare column values structurally.
\<close>

type_synonym pydict = "(string \<times> pyval) list"

record player =
  player_id :: nat
  puuid :: pyval
  summonerId :: pyval
  gameName :: pyval
  tagLine :: pyval
  summonerLevel :: pyval
  profileIconId :: pyval
  lastMatchFetch :: int
  region :: pyval

record match_row =
  match_id :: nat
  gameVersion :: pyval
  matchId :: pyval
  matchStart :: pyval
  matchDuration :: pyval
  matchWinner :: pyval
  matchSurrender :: pyval
  matchRemake :: pyval

record stats_row =
  stats_id :: nat
  stats_cols :: pydict

record rating =
  rating_id :: nat
  tier :: pyval
  rank :: pyval
  rating_summonerId :: pyval
  leaguePoints :: pyval
  wins :: pyval
  losses :: pyval
  rating_region :: pyval
  fetchTime :: int

record db =
  players :: "player list"
  matches :: "match_row list"
  stats :: "stats_row list"
  ratings :: "rating list"
  now :: int

text \<open>\<open>d[k]\<close>, \<open>d.get(k)\<close> and \<open>d[k] = v\<close> on a dict.\<close>

definition dict_get :: "pydict \<Rightarrow> string \<Rightarrow> exn + pyval" where
  "dict_get d k = getitem (PDict d) (K k)"

definition col :: "pydict \<Rightarrow> string \<Rightarrow> pyval" where
  "col d k = (case map_of d k of None \<Rightarrow> PNone | Some v \<Rightarrow> v)"

fun dict_set :: "string \<Rightarrow> pyval \<Rightarrow> pydict \<Rightarrow> pydict" where
  "dict_set k v [] = [(k, v)]"
| "dict_set k v ((k', v') # d) = (if k' = k then (k, v) # d else (k', v') # dict_set k v d)"

text \<open>
  \<open>a == b\<close>: numbers compare by value, other objects structurally.
\<close>

definition py_eq :: "pyval \<Rightarrow> pyval \<Rightarrow> bool" where
  "py_eq a b = (case (num_of a, num_of b) of (Some x, Some y) \<Rightarrow> x = y | _ \<Rightarrow> a = b)"

text \<open>The next value of an auto-increment primary key.\<close>

definition fresh_id :: "nat list \<Rightarrow> nat" where
  "fresh_id ids = Suc (fold max ids 0)"

text \<open>
  The column default of \<open>Player.lastMatchFetch\<close>, "2024-05-1 00:00:01", in
  microseconds since the epoch.
\<close>

definition default_lastMatchFetch :: int where
  "default_lastMatchFetch = 1714521601000000"

text \<open>\<open>query.filter(...).first()\<close> and a write to the row it returned.\<close>

fun update_first :: "('a \<Rightarrow> bool) \<Rightarrow> ('a \<Rightarrow> 'a) \<Rightarrow> 'a list \<Rightarrow> 'a list" where
  "update_first P f [] = []"
| "update_first P f (x # xs) = (if P x then f x # xs else x # update_first P f xs)"

subsection \<open>Inserts\<close>

definition insert_error :: "string \<Rightarrow> exn" where
  "insert_error model = Wrapped (''Error inserting data on model: '' @ model) SQLAlchemyError"

fun player_rows :: "nat \<Rightarrow> pydict list \<Rightarrow> player list" where
  "player_rows n [] = []"
| "player_rows n (d # ds) =
     \<lparr>player_id = n, puuid = col d ''puuid'', summonerId = col d ''summonerId'',
      gameName = col d ''gameName'', tagLine = col d ''tagLine'',
      summonerLevel = col d ''summonerLevel'', profileIconId = col d ''profileIconId'',
      lastMatchFetch =
        (case map_of d ''lastMatchFetch'' of Some (PDateTime t) \<Rightarrow> t | _ \<Rightarrow> default_lastMatchFetch),
      region = col d ''region''\<rparr> # player_rows (Suc n) ds"

definition insert_player_list :: "pydict list \<Rightarrow> db \<Rightarrow> (exn + unit) \<times> db" where
  "insert_player_list data_list s =
     (let rows = player_rows (fresh_id (map player_id (players s))) data_list;
          keys = map puuid (players s @ rows)
      in if PNone \<in> set (map puuid rows) \<or> \<not> distinct keys
         then (Inl (insert_error ''Player''), s)
         else (Inr (), s\<lparr>players := players s @ rows\<rparr>))"

definition insert_match :: "pydict \<Rightarrow> db \<Rightarrow> (exn + unit) \<times> db" where
  "insert_match data s =
     (Inr (), s\<lparr>matches := matches s @
        [\<lparr>match_id = fresh_id (map match_id (matches s)),
          gameVersion = col data ''gameVersion'', matchId = col data ''matchId'',
          matchStart = col data ''matchStart'', matchDuration = col data ''matchDuration'',
          matchWinner = col data ''matchWinner'', matchSurrender = col data ''matchSurrender'',
          matchRemake = col data ''matchRemake''\<rparr>]\<rparr>)"

fun rating_rows :: "nat \<Rightarrow> int \<Rightarrow> pydict list \<Rightarrow> rating list" where
  "rating_rows n t [] = []"
| "rating_rows n t (d # ds) =
     \<lparr>rating_id = n, tier = col d ''tier'', rank = col d ''rank'',
      rating_summonerId = col d ''summonerId'', leaguePoints = col d ''leaguePoints'',
      wins = col d ''wins'', losses = col d ''losses'', rating_region = col d ''region'',
      fetchTime = t\<rparr> # rating_rows (Suc n) t ds"

definition insert_player_rating_list :: "pydict list \<Rightarrow> db \<Rightarrow> (exn + unit) \<times> db" where
  "insert_player_rating_list data_list s =
     (Inr (), s\<lparr>ratings := ratings s @
        rating_rows (fresh_id (map rating_id (ratings s))) (now s) data_list\<rparr>)"

subsection \<open>Queries\<close>

text \<open>
  \<open>get_next_to_fetch\<close>: the rows of the given regions, ordered by \<open>lastMatchFetch\<close>
  ascending; the first one, as a dict, or \<open>None\<close>. Rows with the same timestamp keep
  their table order.
\<close>

definition get_next_to_fetch :: "string list \<Rightarrow> db \<Rightarrow> pyval" where
  "get_next_to_fetch regions s =
     (case sort_key lastMatchFetch (filter (\<lambda>p. region p \<in> PStr ` set regions) (players s)) of
        [] \<Rightarrow> PNone
      | p # _ \<Rightarrow> PDict [(''puuid'', puuid p), (''lastFetch'', PDateTime (lastMatchFetch p))])"

definition get_player_id :: "pyval \<Rightarrow> db \<Rightarrow> exn + pyval" where
  "get_player_id pu s =
     (case find (\<lambda>p. puuid p = pu) (players s) of
        None \<Rightarrow> Inl (AttributeError ''id'')
      | Some p \<Rightarrow> Inr (PInt (int (player_id p))))"

definition get_match_id :: "pyval \<Rightarrow> db \<Rightarrow> exn + pyval" where
  "get_match_id mid s =
     (case find (\<lambda>m. matchId m = mid) (matches s) of
        None \<Rightarrow> Inl (AttributeError ''id'')
      | Some m \<Rightarrow> Inr (PInt (int (match_id m))))"

definition match_on_db :: "pyval \<Rightarrow> db \<Rightarrow> bool" where
  "match_on_db mid s = (find (\<lambda>m. matchId m = mid) (matches s) \<noteq> None)"

text \<open>\<open>update_last_fetch\<close>: the row's cursor becomes \<open>func.now()\<close>.\<close>

definition update_last_fetch :: "pyval \<Rightarrow> db \<Rightarrow> (exn + unit) \<times> db" where
  "update_last_fetch pu s =
     (case find (\<lambda>p. puuid p = pu) (players s) of
        None \<Rightarrow> (Inl (AttributeError ''lastMatchFetch''), s)
      | Some p \<Rightarrow>
          (Inr (), s\<lparr>players :=
             update_first (\<lambda>p. puuid p = pu) (\<lambda>p. p\<lparr>lastMatchFetch := now s\<rparr>) (players s)\<rparr>))"

text \<open>
  \<open>update_player_if_exists\<close>. The writes to the row reach the table at
  \<open>session.commit()\<close> only: a subscript that raises on the way leaves the table as
  it was.
\<close>

definition update_player_if_exists :: "pydict \<Rightarrow> pyval \<Rightarrow> db \<Rightarrow> (exn + pyval) \<times> db" where
  "update_player_if_exists player matchDate s =
     (case dict_get player ''puuid'' of
        Inl e \<Rightarrow> (Inl e, s)
      | Inr pu \<Rightarrow>
     (case find (\<lambda>p. puuid p = pu) (players s) of
        None \<Rightarrow> (Inr PNone, s)
      | Some player_exists \<Rightarrow>
     (case py_gt (PDateTime (lastMatchFetch player_exists)) matchDate of
        Inl e \<Rightarrow> (Inl e, s)
      | Inr False \<Rightarrow> (Inr (PBool True), s)
      | Inr True \<Rightarrow>
     (case dict_get player ''summonerId'' of Inl e \<Rightarrow> (Inl e, s) | Inr v1 \<Rightarrow>
     (case dict_get player ''gameName'' of Inl e \<Rightarrow> (Inl e, s) | Inr v2 \<Rightarrow>
     (case dict_get player ''tagLine'' of Inl e \<Rightarrow> (Inl e, s) | Inr v3 \<Rightarrow>
     (case dict_get player ''summonerLevel'' of Inl e \<Rightarrow> (Inl e, s) | Inr v4 \<Rightarrow>
     (case dict_get player ''profileIconId'' of Inl e \<Rightarrow> (Inl e, s) | Inr v5 \<Rightarrow>
     (case matchDate of
        PDateTime t \<Rightarrow>
          (case dict_get player ''region'' of Inl e \<Rightarrow> (Inl e, s) | Inr v6 \<Rightarrow>
             (Inr (PBool True), s\<lparr>players :=
                update_first (\<lambda>p. puuid p = pu)
                  (\<lambda>p. p\<lparr>summonerId := v1, gameName := v2, tagLine := v3, summonerLevel := v4,
                         profileIconId := v5, lastMatchFetch := t, region := v6\<rparr>)
                  (players s)\<rparr>))
      | _ \<Rightarrow> (Inl TypeError, s))))))))))"

text \<open>
  \<open>rating_up_to_date\<close>: the rows of the summoner ordered by \<open>fetchTime\<close> ascending,
  the first of them compared with the new rating.
\<close>

definition rating_up_to_date :: "pydict \<Rightarrow> db \<Rightarrow> exn + bool" where
  "rating_up_to_date r s =
     (case dict_get r ''summonerId'' of
        Inl e \<Rightarrow> Inl e
      | Inr sid \<Rightarrow>
     (case sort_key fetchTime (filter (\<lambda>x. rating_summonerId x = sid) (ratings s)) of
        [] \<Rightarrow> Inr False
      | last_rating # _ \<Rightarrow>
     (case dict_get r ''leaguePoints'' of Inl e \<Rightarrow> Inl e | Inr lp \<Rightarrow>
        if \<not> py_eq (leaguePoints last_rating) lp then Inr False else
     (case dict_get r ''wins'' of Inl e \<Rightarrow> Inl e | Inr w \<Rightarrow>
        if \<not> py_eq (wins last_rating) w then Inr False else
     (case dict_get r ''losses'' of Inl e \<Rightarrow> Inl e | Inr l \<Rightarrow>
        Inr (py_eq (losses last_rating) l))))))"

section \<open>treatment.py\<close>

text \<open>
  A dict display \<open>{k1: e1, k2: e2, ...}\<close>: the value expressions are evaluated from
  left to right, and the first one that raises ends the evaluation.
\<close>

fun dict_literal :: "(string \<times> (exn + pyval)) list \<Rightarrow> exn + pydict" where
  "dict_literal [] = Inr []"
| "dict_literal ((k, Inl e) # rest) = Inl e"
| "dict_literal ((k, Inr v) # rest) = ebind (dict_literal rest) (\<lambda>d. Inr ((k, v) # d))"

text \<open>A \<open>for\<close> loop that appends one result per element, until an element raises.\<close>

fun for_each :: "('a \<Rightarrow> exn + 'b) \<Rightarrow> 'a list \<Rightarrow> exn + 'b list" where
  "for_each f [] = Inr []"
| "for_each f (x # xs) = ebind (f x) (\<lambda>y. ebind (for_each f xs) (\<lambda>ys. Inr (y # ys)))"

subsection \<open>get_rating_list\<close>

definition new_rating :: "pyval \<Rightarrow> string \<Rightarrow> bool \<Rightarrow> pyval \<Rightarrow> exn + pydict" where
  "new_rating rating_response reg high_rank r =
     dict_literal
       [(''tier'', if high_rank then getitem rating_response (K ''tier'') else getitem r (K ''tier'')),
        (''rank'', getitem r (K ''rank'')),
        (''wins'', getitem r (K ''wins'')),
        (''losses'', getitem r (K ''losses'')),
        (''leaguePoints'', getitem r (K ''leaguePoints'')),
        (''summonerId'', getitem r (K ''summonerId'')),
        (''region'', Inr (PStr reg))]"

text \<open>
  The loop of \<open>get_rating_list\<close>: a rating is appended unless \<open>rating_up_to_date\<close>
  holds of it. The loop only reads the store.
\<close>

fun rating_loop :: "pyval \<Rightarrow> string \<Rightarrow> bool \<Rightarrow> db \<Rightarrow> pyval list \<Rightarrow> exn + pydict list" where
  "rating_loop rating_response reg high_rank s [] = Inr []"
| "rating_loop rating_response reg high_rank s (r # rs) =
     ebind (new_rating rating_response reg high_rank r) (\<lambda>nr.
     ebind (rating_up_to_date nr s) (\<lambda>up_to_date.
     ebind (rating_loop rating_response reg high_rank s rs) (\<lambda>rating_list.
       Inr (if \<not> up_to_date then nr # rating_list else rating_list))))"

definition get_rating_list :: "pyval \<Rightarrow> string \<Rightarrow> bool \<Rightarrow> db \<Rightarrow> exn + pydict list" where
  "get_rating_list rating_response reg high_rank s =
     wrap ''Error on the treatment of data for rating list''
       (ebind (if high_rank then getitem rating_response (K ''entries'') else Inr rating_response)
          (\<lambda>entries.
        ebind (py_iter entries) (rating_loop rating_response reg high_rank s)))"

subsection \<open>get_match_info\<close>

text \<open>\<open>datetime.datetime.fromtimestamp(v / 1000)\<close>.\<close>

definition fromtimestamp_ms :: "pyval \<Rightarrow> exn + pyval" where
  "fromtimestamp_ms v =
     (case num_of v of
        None \<Rightarrow> Inl TypeError
      | Some x \<Rightarrow> ebind (true_div x 1000) (\<lambda>secs. Inr (PDateTime (round (secs * 1000000)))))"

definition match_info :: "pyval \<Rightarrow> exn + pydict" where
  "match_info data =
     dict_literal
       [(''gameVersion'', getpath data [K ''info'', K ''gameVersion'']),
        (''matchId'', getpath data [K ''metadata'', K ''matchId'']),
        (''matchStart'', ebind (getpath data [K ''info'', K ''gameCreation'']) fromtimestamp_ms),
        (''matchDuration'', getpath data [K ''info'', K ''gameDuration'']),
        (''matchWinner'',
           ebind (getpath data [K ''info'', K ''teams'', I 0, K ''win''])
             (\<lambda>v. Inr (PBool (\<not> truthy v)))),
        (''matchSurrender'',
           getpath data [K ''info'', K ''participants'', I 0, K ''gameEndedInSurrender'']),
        (''matchRemake'',
           getpath data [K ''info'', K ''participants'', I 0, K ''gameEndedInEarlySurrender''])]"

definition get_match_info :: "pyval \<Rightarrow> exn + pydict option" where
  "get_match_info data =
     (case ebind (getpath data [K ''info'', K ''endOfGameResult''])
             (\<lambda>res. if \<not> py_eq res (PStr ''Abort_Unexpected'')
                    then ebind (match_info data) (\<lambda>m. Inr (Some m))
                    else Inr None) of
        Inr r \<Rightarrow> Inr r
      | Inl e \<Rightarrow>
          (case getpath data [K ''metadata'', K ''matchId''] of
             Inl e' \<Rightarrow> Inl e'
           | Inr mid \<Rightarrow> Inl (MatchError mid e)))"

subsection \<open>get_player_info\<close>

definition player_info :: "pyval \<Rightarrow> pyval \<Rightarrow> exn + pydict" where
  "player_info data participant =
     dict_literal
       [(''puuid'', getitem participant (K ''puuid'')),
        (''summonerId'', getitem participant (K ''summonerId'')),
        (''gameName'', getitem participant (K ''riotIdGameName'')),
        (''tagLine'', getitem participant (K ''riotIdTagline'')),
        (''profileIconId'', getitem participant (K ''profileIcon'')),
        (''summonerLevel'', getitem participant (K ''summonerLevel'')),
        (''region'', getpath data [K ''info'', K ''platformId''])]"

definition get_player_info :: "pyval \<Rightarrow> exn + pydict list" where
  "get_player_info data =
     wrap ''Error on the treatment of data for player information''
       (ebind (getpath data [K ''info'', K ''participants'']) (\<lambda>ps.
        ebind (py_iter ps) (for_each (player_info data))))"

subsection \<open>get_player_stats\<close>

text \<open>\<open>int(participant["totalMinionsKilled"]) + int(participant["neutralMinionsKilled"])\<close>.\<close>

definition total_cs :: "pyval \<Rightarrow> exn + int" where
  "total_cs participant =
     ebind (getitem participant (K ''totalMinionsKilled'')) (\<lambda>a.
     ebind (py_int a) (\<lambda>ia.
     ebind (getitem participant (K ''neutralMinionsKilled'')) (\<lambda>b.
     ebind (py_int b) (\<lambda>ib. Inr (ia + ib)))))"

text \<open>The same sum, divided by \<open>int(data["info"]["gameDuration"]) / 60\<close>.\<close>

definition cs_per_min :: "pyval \<Rightarrow> pyval \<Rightarrow> exn + pyval" where
  "cs_per_min data participant =
     ebind (total_cs participant) (\<lambda>cs.
     ebind (getpath data [K ''info'', K ''gameDuration'']) (\<lambda>g.
     ebind (py_int g) (\<lambda>d.
     ebind (true_div (of_int d) 60) (\<lambda>minutes.
     ebind (true_div (of_int cs) minutes) (\<lambda>q. Inr (PFloat q))))))"

definition player_stats :: "pyval \<Rightarrow> pyval \<Rightarrow> exn + pydict" where
  "player_stats data participant =
     dict_literal
       [(''playerId'', getitem participant (K ''puuid'')),
        (''matchId'', getpath data [K ''metadata'', K ''matchId'']),
        (''championId'', getitem participant (K ''championId'')),
        (''kills'', getitem participant (K ''kills'')),
        (''deaths'', getitem participant (K ''deaths'')),
        (''assists'', getitem participant (K ''assists'')),
        (''goldEarned'', getitem participant (K ''goldEarned'')),
        (''goldSpent'', getitem participant (K ''goldSpent'')),
        (''totalDamage'', getitem participant (K ''totalDamageDealtToChampions'')),
        (''item0'', getitem participant (K ''item0'')),
        (''item1'', getitem participant (K ''item1'')),
        (''item2'', getitem participant (K ''item2'')),
        (''item3'', getitem participant (K ''item3'')),
        (''item4'', getitem participant (K ''item4'')),
        (''item5'', getitem participant (K ''item5'')),
        (''item6'', getitem participant (K ''item6'')),
        (''defense'', getpath participant [K ''perks'', K ''statPerks'', K ''defense'']),
        (''flex'', getpath participant [K ''perks'', K ''statPerks'', K ''flex'']),
        (''offense'', getpath participant [K ''perks'', K ''statPerks'', K ''offense'']),
        (''runeTree'', getpath participant [K ''perks'', K ''styles'', I 0, K ''style'']),
        (''main0'',
           getpath participant [K ''perks'', K ''styles'', I 0, K ''selections'', I 0, K ''perk'']),
        (''main1'',
           getpath participant [K ''perks'', K ''styles'', I 0, K ''selections'', I 1, K ''perk'']),
        (''main2'',
           getpath participant [K ''perks'', K ''styles'', I 0, K ''selections'', I 2, K ''perk'']),
        (''main3'',
           getpath participant [K ''perks'', K ''styles'', I 0, K ''selections'', I 3, K ''perk'']),
        (''subTree'', getpath participant [K ''perks'', K ''styles'', I 1, K ''style'']),
        (''sub1'',
           getpath participant [K ''perks'', K ''styles'', I 1, K ''selections'', I 0, K ''perk'']),
        (''sub2'',
           getpath participant [K ''perks'', K ''styles'', I 1, K ''selections'', I 1, K ''perk'']),
        (''spell1'', getitem participant (K ''summoner1Id'')),
        (''spell2'', getitem participant (K ''summoner2Id'')),
        (''neutralMinionsKilled'', getitem participant (K ''neutralMinionsKilled'')),
        (''totalMinionsKilled'', getitem participant (K ''totalMinionsKilled'')),
        (''totalCs'', ebind (total_cs participant) (\<lambda>cs. Inr (PInt cs))),
        (''csPerMin'', cs_per_min data participant),
        (''visionScore'', getitem participant (K ''visionScore'')),
        (''controlWardsPlaced'', getpath participant [K ''challenges'', K ''controlWardsPlaced'']),
        (''wardsPlaced'', getitem participant (K ''wardsPlaced'')),
        (''wardsKilled'', getitem participant (K ''wardsKilled'')),
        (''teamPosition'', getitem participant (K ''teamPosition'')),
        (''team'', ebind (getitem participant (K ''teamId'')) (\<lambda>t. Inr (PBool (py_eq t (PInt 200)))))]"

definition get_player_stats :: "pyval \<Rightarrow> exn + pydict list" where
  "get_player_stats data =
     wrap ''Error on the treatment of data for player stats list''
       (ebind (getpath data [K ''info'', K ''participants'']) (\<lambda>ps.
        ebind (py_iter ps) (for_each (player_stats data))))"

section \<open>database.py: insert_stats_list\<close>

text \<open>
  The loop of \<open>insert_stats_list\<close> replaces the external ids of each mapping by the
  primary keys that \<open>get_player_id\<close> and \<open>get_match_id\<close> find; then the mappings
  are inserted.
\<close>

fun resolve_stats :: "pydict list \<Rightarrow> db \<Rightarrow> exn + pydict list" where
  "resolve_stats [] s = Inr []"
| "resolve_stats (stat # rest) s =
     ebind (dict_get stat ''playerId'') (\<lambda>pu.
     ebind (get_player_id pu s) (\<lambda>pid.
     ebind (dict_get (dict_set ''playerId'' pid stat) ''matchId'') (\<lambda>m.
     ebind (get_match_id m s) (\<lambda>mid.
     ebind (resolve_stats rest s) (\<lambda>rest'.
       Inr (dict_set ''matchId'' mid (dict_set ''playerId'' pid stat) # rest'))))))"

fun stats_rows :: "nat \<Rightarrow> pydict list \<Rightarrow> stats_row list" where
  "stats_rows n [] = []"
| "stats_rows n (d # ds) = \<lparr>stats_id = n, stats_cols = d\<rparr> # stats_rows (Suc n) ds"

definition insert_stats_list :: "pydict list \<Rightarrow> db \<Rightarrow> (exn + unit) \<times> db" where
  "insert_stats_list data_list s =
     (case resolve_stats data_list s of
        Inl e \<Rightarrow> (Inl e, s)
      | Inr rows \<Rightarrow>
          (Inr (), s\<lparr>stats := stats s @ stats_rows (fresh_id (map stats_id (stats s))) rows\<rparr>))"

section \<open>main.py: the match crawler\<close>

text \<open>
  The state of one \<open>main_region_fetching\<close> worker: the base fetcher of its
  \<open>MainRegionFetcher\<close>, the network and the store.
\<close>

record state =
  fetcher :: obj
  net :: world
  store :: db

text \<open>
  The inner \<open>while True\<close> loop that pages through the match ids of \<open>next_player\<close>;
  \<open>page\<close> is what the source calls \<open>matches\<close>, and \<open>match_list.extend\<close> iterates it.
  The result is the accumulated \<open>match_list\<close> and the final \<open>list_size\<close>.
\<close>

function collect_match_list ::
  "string \<Rightarrow> pyval \<Rightarrow> pyval list \<Rightarrow> int \<Rightarrow> obj \<times> world \<Rightarrow>
     (exn + pyval list \<times> int) \<times> obj \<times> world" where
  "collect_match_list reg next_player match_list list_size (self, w) =
     (case ebind (getitem next_player (K ''puuid'')) (\<lambda>pu.
           ebind (getitem next_player (K ''lastFetch'')) (\<lambda>lf. Inr (pu, lf))) of
        Inl e \<Rightarrow> (Inl e, self, w)
      | Inr (pu, lf) \<Rightarrow>
          (case get_match_list reg pu lf list_size (self, w) of
             (Inl e, self', w') \<Rightarrow> (Inl e, self', w')
           | (Inr page, self', w') \<Rightarrow>
               (case py_iter page of
                  Inl e \<Rightarrow> (Inl e, self', w')
                | Inr ms \<Rightarrow>
                    if page \<noteq> PNone \<and> py_len page = Inr 100
                    then collect_match_list reg next_player (match_list @ ms) (list_size + 100)
                           (self', w')
                    else (Inr (match_list @ ms, list_size), self', w'))))"
  by pat_completeness auto
termination
  by (relation "measure (\<lambda>(reg, np, ml, ls, self, w). length (replies w))")
     (auto dest: get_match_list_replies [OF sym])

declare collect_match_list.simps [simp del]

text \<open>
  The loop over the participants of a match (\<open>new_p_info\<close>): a player for whom
  \<open>update_player_if_exists\<close> answers \<open>True\<close> is left out of the batch.
\<close>

fun new_players :: "pydict list \<Rightarrow> pydict \<Rightarrow> db \<Rightarrow> (exn + pydict list) \<times> db" where
  "new_players [] m_info s = (Inr [], s)"
| "new_players (player # rest) m_info s =
     (case dict_get m_info ''matchStart'' of
        Inl e \<Rightarrow> (Inl e, s)
      | Inr matchDate \<Rightarrow>
          (case update_player_if_exists player matchDate s of
             (Inl e, s') \<Rightarrow> (Inl e, s')
           | (Inr player_exists, s') \<Rightarrow>
               (case new_players rest m_info s' of
                  (Inl e, s'') \<Rightarrow> (Inl e, s'')
                | (Inr new_p_info, s'') \<Rightarrow>
                    (Inr (if py_eq player_exists (PBool True) then new_p_info
                          else player # new_p_info), s''))))"

text \<open>The inserts of one match: the new players, the match, the stats.\<close>

definition persist_match :: "pydict \<Rightarrow> pydict list \<Rightarrow> pydict list \<Rightarrow> db \<Rightarrow> (exn + unit) \<times> db" where
  "persist_match m_info p_info p_stats s =
     (case new_players p_info m_info s of
        (Inl e, s1) \<Rightarrow> (Inl e, s1)
      | (Inr new_p_info, s1) \<Rightarrow>
          (case insert_player_list new_p_info s1 of
             (Inl e, s2) \<Rightarrow> (Inl e, s2)
           | (Inr _, s2) \<Rightarrow>
               (case insert_match m_info s2 of
                  (Inl e, s3) \<Rightarrow> (Inl e, s3)
                | (Inr _, s3) \<Rightarrow> insert_stats_list p_stats s3)))"

text \<open>The body of \<open>for match in match_list\<close>; \<open>continue\<close> is a normal end of the body.\<close>

definition process_match :: "string \<Rightarrow> pyval \<Rightarrow> state \<Rightarrow> (exn + unit) \<times> state" where
  "process_match reg match st =
     (if match_on_db match (store st) then (Inr (), st)
      else
        (case get_match_data reg match (fetcher st, net st) of
           (Inl e, self', w') \<Rightarrow> (Inl e, st\<lparr>fetcher := self', net := w'\<rparr>)
         | (Inr match_data, self', w') \<Rightarrow>
             (let st1 = st\<lparr>fetcher := self', net := w'\<rparr> in
              case get_match_info match_data of
                Inl e \<Rightarrow> (Inl e, st1)
              | Inr None \<Rightarrow> (Inr (), st1)
              | Inr (Some m_info) \<Rightarrow>
                  (case ebind (get_player_info match_data) (\<lambda>p_info.
                        ebind (get_player_stats match_data) (\<lambda>p_stats. Inr (p_info, p_stats))) of
                     Inl e \<Rightarrow> (Inl e, st1)
                   | Inr (p_info, p_stats) \<Rightarrow>
                       (case persist_match m_info p_info p_stats (store st1) of
                          (r, s') \<Rightarrow> (r, st1\<lparr>store := s'\<rparr>))))))"

fun process_matches :: "string \<Rightarrow> pyval list \<Rightarrow> state \<Rightarrow> (exn + unit) \<times> state" where
  "process_matches reg [] st = (Inr (), st)"
| "process_matches reg (m # ms) st =
     (case process_match reg m st of
        (Inl e, st') \<Rightarrow> (Inl e, st')
      | (Inr _, st') \<Rightarrow> process_matches reg ms st')"

text \<open>
  One round of the outer \<open>while True\<close> loop: select the next player, collect the
  match list, process the matches, then \<open>update_last_fetch\<close>.
\<close>

definition crawl_player :: "string \<Rightarrow> string list \<Rightarrow> state \<Rightarrow> (exn + unit) \<times> state" where
  "crawl_player reg regions st =
     (let next_player = get_next_to_fetch regions (store st) in
      case collect_match_list reg next_player [] 0 (fetcher st, net st) of
        (Inl e, self', w') \<Rightarrow> (Inl e, st\<lparr>fetcher := self', net := w'\<rparr>)
      | (Inr (match_list, list_size), self', w') \<Rightarrow>
          (case process_matches reg match_list (st\<lparr>fetcher := self', net := w'\<rparr>) of
             (Inl e, st') \<Rightarrow> (Inl e, st')
           | (Inr _, st') \<Rightarrow>
               (case getitem next_player (K ''puuid'') of
                  Inl e \<Rightarrow> (Inl e, st')
                | Inr pu \<Rightarrow>
                    (case update_last_fetch pu (store st') of
                       (r, s') \<Rightarrow> (r, st'\<lparr>store := s'\<rparr>)))))"

text \<open>Each of these steps leaves the script of replies no longer than it was.\<close>

lemma collect_match_list_replies:
  "collect_match_list reg np ml ls (self, w) = (r, self', w') \<Longrightarrow>
     length (replies w') \<le> length (replies w) \<and>
     (\<forall>v. r = Inr v \<longrightarrow> length (replies w') < length (replies w))"
proof (induction reg np ml ls "(self, w)" arbitrary: self w rule: collect_match_list.induct)
  case (1 reg np ml ls self w)
  show ?case
  proof (cases "ebind (getitem np (K ''puuid'')) (\<lambda>pu.
           ebind (getitem np (K ''lastFetch'')) (\<lambda>lf. Inr (pu, lf)))")
    case (Inl e)
    with "1.prems" show ?thesis
      by (auto simp add: collect_match_list.simps [of reg np ml ls self w])
  next
    case (Inr pl)
    obtain pu lf where pl: "pl = (pu, lf)" by (cases pl)
    obtain g self1 w1 where gm: "get_match_list reg pu lf ls (self, w) = (g, self1, w1)"
      by (cases "get_match_list reg pu lf ls (self, w)") auto
    note gr = get_match_list_replies [OF gm]
    show ?thesis
    proof (cases g)
      case (Inl e)
      with "1.prems" Inr pl gm gr show ?thesis
        by (auto simp add: collect_match_list.simps [of reg np ml ls self w])
    next
      case g: (Inr page)
      show ?thesis
      proof (cases "py_iter page")
        case (Inl e)
        with "1.prems" Inr pl gm gr g show ?thesis
          by (auto simp add: collect_match_list.simps [of reg np ml ls self w])
      next
        case it: (Inr ms)
        show ?thesis
        proof (cases "page \<noteq> PNone \<and> py_len page = Inr 100")
          case True
          with "1.prems" Inr pl gm g it
          have rec: "collect_match_list reg np (ml @ ms) (ls + 100) (self1, w1) = (r, self', w')"
            by (simp add: collect_match_list.simps [of reg np ml ls self w])
          have "length (replies w') \<le> length (replies w1) \<and>
                (\<forall>v. r = Inr v \<longrightarrow> length (replies w') < length (replies w1))"
            by (rule "1.hyps" [OF Inr [unfolded pl] refl _ refl refl it True rec])
               (simp add: gm g)
          with gr g show ?thesis by auto
        next
          case False
          with "1.prems" Inr pl gm g it gr show ?thesis
            by (auto simp add: collect_match_list.simps [of reg np ml ls self w])
        qed
      qed
    qed
  qed
qed

lemma process_match_replies:
  "process_match reg m st = (r, st') \<Longrightarrow>
     length (replies (net st')) \<le> length (replies (net st))"
  by (auto simp: process_match_def Let_def
           split: if_splits prod.splits sum.splits option.splits
           dest: get_match_data_replies)

lemma process_matches_replies:
  "process_matches reg ms st = (r, st') \<Longrightarrow>
     length (replies (net st')) \<le> length (replies (net st))"
proof (induction ms arbitrary: st)
  case Nil
  then show ?case by simp
next
  case (Cons m ms)
  then show ?case
    by (fastforce split: prod.splits sum.splits dest: process_match_replies)
qed

lemma crawl_player_replies:
  "crawl_player reg regions st = (Inr v, st') \<Longrightarrow>
     length (replies (net st')) < length (replies (net st))"
  by (fastforce simp: crawl_player_def Let_def
           split: prod.splits sum.splits
           dest: collect_match_list_replies process_matches_replies)

text \<open>
  The outer \<open>while True\<close> loop. It has no exit of its own: it ends when a round
  raises, and the \<open>except\<close> handler around it prints the exception. The result is
  that exception and the state then. (Every round that ends normally has used up a
  reply of the script, so the loop is well defined.)
\<close>

function main_loop :: "string \<Rightarrow> string list \<Rightarrow> state \<Rightarrow> exn \<times> state" where
  "main_loop reg regions st =
     (case crawl_player reg regions st of
        (Inl e, st') \<Rightarrow> (e, st')
      | (Inr _, st') \<Rightarrow> main_loop reg regions st')"
  by pat_completeness auto
termination
  by (relation "measure (\<lambda>(reg, regions, st). length (replies (net st)))")
     (auto dest: crawl_player_replies [OF sym])

declare main_loop.simps [simp del]

text \<open>
  \<open>main_region_fetching\<close>, from the creation of the \<open>MainRegionFetcher\<close> on (the
  start of the sub-region workers and the wait for a first player are other threads'
  business): \<open>cur_region\<close> is the key of \<open>region_list\<close> and \<open>sub_regions\<close> its value.
\<close>

definition main_region_fetching ::
  "string \<Rightarrow> string list \<Rightarrow> pyval \<Rightarrow> world \<Rightarrow> db \<Rightarrow> exn \<times> state" where
  "main_region_fetching cur_region sub_regions api_key w s =
     main_loop cur_region sub_regions
       \<lparr>fetcher = BaseFetcher_init api_key, net = w, store = s\<rparr>"

section \<open>main.py: the ladder crawler\<close>

text \<open>
  What \<open>sub_region_fetching\<close> does with a fetched bracket or page:
  \<open>treated_rating = get_rating_list(...)\<close>, then
  \<open>insert_player_rating_list(treated_rating)\<close>.
\<close>

definition store_ratings :: "pyval \<Rightarrow> string \<Rightarrow> bool \<Rightarrow> db \<Rightarrow> (exn + unit) \<times> db" where
  "store_ratings rating_response reg high_rank s =
     (case get_rating_list rating_response reg high_rank s of
        Inl e \<Rightarrow> (Inl e, s)
      | Inr treated_rating \<Rightarrow> insert_player_rating_list treated_rating s)"

section \<open>Reading the store\<close>

text \<open>
  The row of a player, found as the queries of \<open>database.py\<close> find it (the first row
  with that \<open>puuid\<close>), its fetch cursor, and the players that a call of
  \<open>get_next_to_fetch\<close> ranges over.
\<close>

definition player_of :: "db \<Rightarrow> pyval \<Rightarrow> player option" where
  "player_of s pu = find (\<lambda>p. puuid p = pu) (players s)"

definition cursor_of :: "db \<Rightarrow> pyval \<Rightarrow> int option" where
  "cursor_of s pu = map_option lastMatchFetch (find (\<lambda>p. puuid p = pu) (players s))"

definition eligible :: "string list \<Rightarrow> db \<Rightarrow> player set" where
  "eligible regions s = {p \<in> set (players s). region p \<in> PStr ` set regions}"

text \<open>No cursor of the first store is lower than the same player's cursor in the second.\<close>

definition cursors_le :: "db \<Rightarrow> db \<Rightarrow> bool" where
  "cursors_le s s' =
     (\<forall>pu c. cursor_of s pu = Some c \<longrightarrow> (\<exists>c'. cursor_of s' pu = Some c' \<and> c' \<le> c))"

section \<open>Scenarios\<close>

text \<open>The replies that the scenarios below are built from.\<close>

definition rate_limited :: "string option \<Rightarrow> response" where
  "rate_limited retry_after =
     \<lparr>status_code = 429,
      headers = (case retry_after of None \<Rightarrow> Map.empty | Some s \<Rightarrow> [''Retry-After'' \<mapsto> s]),
      body = None\<rparr>"

definition ok_reply :: "pyval \<Rightarrow> response" where
  "ok_reply b = \<lparr>status_code = 200, headers = Map.empty, body = Some b\<rparr>"

definition server_error :: response where
  "server_error = \<lparr>status_code = 500, headers = Map.empty, body = None\<rparr>"

text \<open>
  A store with two players, and what a match reports of the first of them.
\<close>

definition late_player :: player where
  "late_player =
     \<lparr>player_id = 1, puuid = PStr ''late'', summonerId = PStr ''s-old'',
      gameName = PStr ''Old Name'', tagLine = PStr ''OLD'', summonerLevel = PInt 30,
      profileIconId = PInt 1, lastMatchFetch = 200, region = PStr ''br1''\<rparr>"

definition early_player :: player where
  "early_player =
     \<lparr>player_id = 2, puuid = PStr ''early'', summonerId = PStr ''s-early'',
      gameName = PStr ''Early'', tagLine = PStr ''EAR'', summonerLevel = PInt 10,
      profileIconId = PInt 2, lastMatchFetch = 100, region = PStr ''na1''\<rparr>"

definition store0 :: db where
  "store0 = \<lparr>players = [late_player, early_player], matches = [], stats = [], ratings = [],
             now = 300\<rparr>"

definition observation :: pydict where
  "observation =
     [(''puuid'', PStr ''late''), (''summonerId'', PStr ''s-new''),
      (''gameName'', PStr ''New Name''), (''tagLine'', PStr ''NEW''),
      (''profileIconId'', PInt 7), (''summonerLevel'', PInt 31), (''region'', PStr ''BR1'')]"

lemmas store_eval =
  store0_def late_player_def early_player_def observation_def cursor_of_def player_of_def
  update_player_if_exists_def update_last_fetch_def dict_get_def

text \<open>
  A store that holds one earlier rating of a summoner, and a ladder page with the
  summoner's present rating.
\<close>

definition old_rating :: rating where
  "old_rating =
     \<lparr>rating_id = 1, tier = PStr ''GOLD'', rank = PStr ''I'', rating_summonerId = PStr ''s1'',
      leaguePoints = PInt 10, wins = PInt 5, losses = PInt 5, rating_region = PStr ''br1'',
      fetchTime = 1\<rparr>"

definition ladder_store :: "int \<Rightarrow> rating list \<Rightarrow> db" where
  "ladder_store t rs = \<lparr>players = [], matches = [], stats = [], ratings = rs, now = t\<rparr>"

definition ladder_page :: pyval where
  "ladder_page =
     PList [PDict [(''tier'', PStr ''GOLD''), (''rank'', PStr ''I''), (''wins'', PInt 6),
                   (''losses'', PInt 5), (''leaguePoints'', PInt 20),
                   (''summonerId'', PStr ''s1'')]]"

definition standing :: "rating \<Rightarrow> pyval \<times> pyval \<times> pyval \<times> int" where
  "standing r = (leaguePoints r, wins r, losses r, fetchTime r)"

lemmas ladder_eval =
  store_ratings_def get_rating_list_def new_rating_def rating_up_to_date_def
  insert_player_rating_list_def wrap_def dict_get_def col_def py_eq_def fresh_id_def
  ladder_store_def ladder_page_def old_rating_def standing_def

text \<open>
  The selected player, as \<open>get_next_to_fetch\<close> returns it, and a full page of match
  ids.
\<close>

definition selected :: "pyval \<Rightarrow> int \<Rightarrow> pyval" where
  "selected pu t = PDict [(''puuid'', pu), (''lastFetch'', PDateTime t)]"

definition hundred_ids :: "pyval list" where
  "hundred_ids = map (\<lambda>i. PInt (int i)) [0..<100]"

text \<open>
  A listing served page by page with status 200, and the requests that ask for \<open>n\<close>
  pages of 100 from the offset \<open>start\<close> on.
\<close>

definition page_replies :: "pyval list list \<Rightarrow> (exn + response) list" where
  "page_replies pages = map (\<lambda>ids. Inr (ok_reply (PList ids))) pages"

definition page_requests :: "string \<Rightarrow> pyval \<Rightarrow> int \<Rightarrow> int \<Rightarrow> nat \<Rightarrow> url list" where
  "page_requests reg pu ts start n =
     map (\<lambda>i. MatchListUrl reg pu ts (start + 100 * int i) 100) [0..<n]"

text \<open>
  A match payload with the fields that \<open>treatment.py\<close> reads, a payload of an
  aborted game, and a crawler that starts on the store above with a scripted network.
\<close>

definition participant_json :: "string \<Rightarrow> pyval" where
  "participant_json pu =
     PDict [(''puuid'', PStr pu), (''summonerId'', PStr ''s-new''),
            (''riotIdGameName'', PStr ''New Name''), (''riotIdTagline'', PStr ''NEW''),
            (''profileIcon'', PInt 7), (''summonerLevel'', PInt 31),
            (''gameEndedInSurrender'', PBool False), (''gameEndedInEarlySurrender'', PBool False),
            (''championId'', PInt 25), (''kills'', PInt 3), (''deaths'', PInt 2),
            (''assists'', PInt 9), (''goldEarned'', PInt 9000), (''goldSpent'', PInt 8500),
            (''totalDamageDealtToChampions'', PInt 12000),
            (''item0'', PInt 1), (''item1'', PInt 2), (''item2'', PInt 3), (''item3'', PInt 4),
            (''item4'', PInt 5), (''item5'', PInt 6), (''item6'', PInt 7),
            (''perks'', PDict
               [(''statPerks'', PDict [(''defense'', PInt 5001), (''flex'', PInt 5008),
                                       (''offense'', PInt 5005)]),
                (''styles'', PList
                   [PDict [(''style'', PInt 8200),
                           (''selections'', PList [PDict [(''perk'', PInt 8214)],
                                                   PDict [(''perk'', PInt 8226)],
                                                   PDict [(''perk'', PInt 8210)],
                                                   PDict [(''perk'', PInt 8237)]])],
                    PDict [(''style'', PInt 8300),
                           (''selections'', PList [PDict [(''perk'', PInt 8345)],
                                                   PDict [(''perk'', PInt 8347)]])]])]),
            (''summoner1Id'', PInt 4), (''summoner2Id'', PInt 14),
            (''neutralMinionsKilled'', PInt 12), (''totalMinionsKilled'', PInt 48),
            (''visionScore'', PInt 40),
            (''challenges'', PDict [(''controlWardsPlaced'', PInt 2)]),
            (''wardsPlaced'', PInt 11), (''wardsKilled'', PInt 3),
            (''teamPosition'', PStr ''UTILITY''), (''teamId'', PInt 200)]"

definition match_payload :: "string \<Rightarrow> string \<Rightarrow> int \<Rightarrow> int \<Rightarrow> pyval list \<Rightarrow> pyval" where
  "match_payload mid result created duration participants =
     PDict [(''metadata'', PDict [(''matchId'', PStr mid)]),
            (''info'', PDict [(''endOfGameResult'', PStr result),
                              (''gameVersion'', PStr ''14.9.1''),
                              (''gameCreation'', PInt created),
                              (''gameDuration'', PInt duration),
                              (''platformId'', PStr ''BR1''),
                              (''teams'', PList [PDict [(''win'', PBool True)],
                                                 PDict [(''win'', PBool False)]]),
                              (''participants'', PList participants)])]"

lemmas payload_eval = match_payload_def participant_json_def

definition aborted_payload :: pyval where
  "aborted_payload =
     PDict [(''metadata'', PDict [(''matchId'', PStr ''BR1_1'')]),
            (''info'', PDict [(''endOfGameResult'', PStr ''Abort_Unexpected''),
                              (''gameDuration'', PInt 0),
                              (''participants'', PList [])])]"

definition crawler0 :: "(exn + response) list \<Rightarrow> state" where
  "crawler0 rs =
     \<lparr>fetcher = BaseFetcher_init (PStr ''key''),
      net = \<lparr>replies = rs, requests = [], sleeps = []\<rparr>,
      store = store0\<rparr>"

text \<open>
  A run of the match crawler: the list of the player's matches has two ids, the
  detail of the first lacks the fields of a match, and the server has two more
  replies ready. \<open>after_error\<close> is the state in which the detail of the first match
  has been fetched and nothing else has happened.
\<close>

definition broken_payload :: pyval where
  "broken_payload =
     PDict [(''metadata'', PDict [(''matchId'', PStr ''BR1_2'')]),
            (''info'', PDict [(''endOfGameResult'', PStr ''GameComplete'')])]"

definition script :: "(exn + response) list" where
  "script =
     [Inr (ok_reply (PList [PStr ''BR1_2'', PStr ''BR1_3''])),
      Inr (ok_reply broken_payload),
      Inr (ok_reply aborted_payload),
      Inr (ok_reply (PList []))]"

definition after_error :: state where
  "after_error =
     \<lparr>fetcher = BaseFetcher_init (PStr ''key''),
      net = \<lparr>replies = [Inr (ok_reply aborted_payload), Inr (ok_reply (PList []))],
             requests = [MatchListUrl ''americas'' (PStr ''early'') 0 0 100,
                         MatchDataUrl ''americas'' (PStr ''BR1_2'')],
             sleeps = []\<rparr>,
      store = store0\<rparr>"

lemmas fetch_eval =
  fetch.simps fetch_round_def backoff_def session_get_def on_response_def getattr_def
  BaseFetcher_init_def headers_get_def response_json_def int_of_string_def strip_def
  is_space_def digit_val_def rate_limited_def ok_reply_def server_error_def

section \<open>The fetcher under rate limiting and server errors\<close>

text \<open>
  C3. A fresh fetcher receives HTTP 429 with \<open>Retry-After: 5\<close> and would receive HTTP
  200 next. The 429 branch stores the backoff (5, or 1 when the header is absent) and
  then formats its message from \<open>self.region\<close>, an attribute that \<open>BaseFetcher\<close> never
  sets: the call raises AttributeError after the first request. Nothing is slept, the
  200 reply is never asked for and its body is not returned.
\<close>

theorem fetch_429_then_200:
  "fetch u (BaseFetcher_init k,
      \<lparr>replies = [Inr (rate_limited (Some ''5'')), Inr (ok_reply b)], requests = [], sleeps = []\<rparr>)
     = (Inl (AttributeError ''region''),
        (BaseFetcher_init k)(''retry_timer'' \<mapsto> PInt 5),
        \<lparr>replies = [Inr (ok_reply b)], requests = [u], sleeps = []\<rparr>)
   \<and> fetch u (BaseFetcher_init k,
      \<lparr>replies = [Inr (rate_limited None), Inr (ok_reply b)], requests = [], sleeps = []\<rparr>)
     = (Inl (AttributeError ''region''),
        (BaseFetcher_init k)(''retry_timer'' \<mapsto> PInt 1),
        \<lparr>replies = [Inr (ok_reply b)], requests = [u], sleeps = []\<rparr>)"
  by (simp add: fetch_eval)

text \<open>
  C4. A fresh fetcher receives three HTTP 500 replies. The branch for the other
  statuses reads \<open>self.retry_counter\<close>, while \<open>__init__\<close> sets \<open>retry_count\<close>: the call
  raises AttributeError on the first reply, after one request; no counter is
  incremented and no exception with the status and the URL is raised.
\<close>

theorem fetch_three_500:
  "fetch u (BaseFetcher_init k,
      \<lparr>replies = [Inr server_error, Inr server_error, Inr server_error],
       requests = [], sleeps = []\<rparr>)
     = (Inl (AttributeError ''retry_counter''),
        BaseFetcher_init k,
        \<lparr>replies = [Inr server_error, Inr server_error], requests = [u], sleeps = []\<rparr>)"
  by (simp add: fetch_eval)

section \<open>The player with the oldest cursor\<close>

lemma sort_key_Nil_iff: "sort_key f xs = [] \<longleftrightarrow> xs = []"
  by (metis length_sort list.size(3) length_0_conv)

lemma sort_key_head_min:
  assumes "sort_key f xs = p # ps"
  shows "p \<in> set xs \<and> (\<forall>q \<in> set xs. f p \<le> f q)"
proof -
  have "set (p # ps) = set xs" using assms by (metis set_sort)
  moreover have "sorted (map f (p # ps))" using assms by (metis sorted_sort_key)
  ultimately show ?thesis by auto
qed

text \<open>
  C7. \<open>get_next_to_fetch\<close> returns \<open>None\<close> exactly when no player is registered in
  the given regions; otherwise it returns the \<open>puuid\<close> and the cursor of a player of
  those regions whose cursor is minimal among them.
\<close>

theorem get_next_to_fetch_min:
  "(get_next_to_fetch regions s = PNone \<longleftrightarrow> eligible regions s = {}) \<and>
   (eligible regions s \<noteq> {} \<longrightarrow>
      (\<exists>p \<in> eligible regions s.
         get_next_to_fetch regions s =
           PDict [(''puuid'', puuid p), (''lastFetch'', PDateTime (lastMatchFetch p))] \<and>
         (\<forall>q \<in> eligible regions s. lastMatchFetch p \<le> lastMatchFetch q)))"
proof -
  let ?xs = "filter (\<lambda>p. region p \<in> PStr ` set regions) (players s)"
  have el: "eligible regions s = set ?xs" by (auto simp: eligible_def)
  show ?thesis
  proof (cases "sort_key lastMatchFetch ?xs")
    case Nil
    then have "?xs = []" by (simp add: sort_key_Nil_iff)
    with Nil el show ?thesis by (simp add: get_next_to_fetch_def)
  next
    case (Cons p ps)
    from sort_key_head_min [OF Cons]
    have "p \<in> set ?xs" "\<forall>q \<in> set ?xs. lastMatchFetch p \<le> lastMatchFetch q"
      by blast+
    with Cons el show ?thesis
      by (auto simp: get_next_to_fetch_def)
  qed
qed

text \<open>
  Two eligible players with cursors 100 and 200: the one with cursor 100 is returned,
  though it is the later row; a region without players gives \<open>None\<close>.
\<close>

theorem get_next_to_fetch_min_witness:
  "eligible [''na1'', ''br1''] store0 \<noteq> {} \<and>
   get_next_to_fetch [''na1'', ''br1''] store0 =
     PDict [(''puuid'', PStr ''early''), (''lastFetch'', PDateTime 100)] \<and>
   get_next_to_fetch [''kr''] store0 = PNone"
  using get_next_to_fetch_min [of "[''na1'', ''br1'']" store0]
        get_next_to_fetch_min [of "[''kr'']" store0]
  by (simp add: eligible_def store_eval get_next_to_fetch_def)

section \<open>Writes to the cursor and to the display fields\<close>

lemma find_update_first_same:
  "(\<And>x. P x \<Longrightarrow> P (f x)) \<Longrightarrow> find P (update_first P f xs) = map_option f (find P xs)"
  by (induction xs) auto

lemma find_update_first_puuid:
  "pu' \<noteq> pu \<Longrightarrow> (\<And>x. puuid (f x) = puuid x) \<Longrightarrow>
     find (\<lambda>p. puuid p = pu) (update_first (\<lambda>p. puuid p = pu') f xs) =
     find (\<lambda>p. puuid p = pu) xs"
  by (induction xs) auto

lemma map_update_first:
  "(\<And>x. g (f x) = g x) \<Longrightarrow> map g (update_first P f xs) = map g xs"
  by (induction xs) auto

lemma py_gt_datetime:
  "py_gt (PDateTime c) md = Inr b \<Longrightarrow> \<exists>t. md = PDateTime t \<and> b = (c > t)"
  by (cases md) auto

text \<open>\<open>update_player_if_exists\<close> either leaves the store as it is or overwrites one row.\<close>

lemma update_player_if_exists_cases:
  assumes "update_player_if_exists obs md s = (r, s')"
  shows "s' = s \<or>
         (\<exists>pu p t v1 v2 v3 v4 v5 v6.
            dict_get obs ''puuid'' = Inr pu \<and> player_of s pu = Some p \<and> md = PDateTime t \<and>
            lastMatchFetch p > t \<and> r = Inr (PBool True) \<and>
            dict_get obs ''summonerId'' = Inr v1 \<and> dict_get obs ''gameName'' = Inr v2 \<and>
            dict_get obs ''tagLine'' = Inr v3 \<and> dict_get obs ''summonerLevel'' = Inr v4 \<and>
            dict_get obs ''profileIconId'' = Inr v5 \<and> dict_get obs ''region'' = Inr v6 \<and>
            s' = s\<lparr>players := update_first (\<lambda>p. puuid p = pu)
                  (\<lambda>p. p\<lparr>summonerId := v1, gameName := v2, tagLine := v3, summonerLevel := v4,
                         profileIconId := v5, lastMatchFetch := t, region := v6\<rparr>)
                  (players s)\<rparr>)"
  using assms
  unfolding update_player_if_exists_def player_of_def
  by (auto split: sum.splits option.splits bool.splits pyval.splits dest!: py_gt_datetime)


lemma player_of_None: "player_of s pu = None \<longleftrightarrow> pu \<notin> set (map puuid (players s))"
  by (auto simp: player_of_def find_None_iff)

lemma update_player_if_exists_puuids:
  "update_player_if_exists obs md s = (r, s') \<Longrightarrow> map puuid (players s') = map puuid (players s)"
  by (drule update_player_if_exists_cases) (auto simp: map_update_first)

lemma update_player_if_exists_None:
  assumes "update_player_if_exists obs md s = (Inr v, s')" "\<not> py_eq v (PBool True)"
  shows "\<exists>pu. dict_get obs ''puuid'' = Inr pu \<and> player_of s pu = None"
  using assms
  unfolding update_player_if_exists_def player_of_def
  by (auto simp: py_eq_def split: sum.splits option.splits bool.splits pyval.splits)

lemma new_players_fresh:
  "new_players p_info m_info s = (Inr batch, s') \<Longrightarrow>
     map puuid (players s') = map puuid (players s) \<and>
     (\<forall>d \<in> set batch. \<exists>pu. dict_get d ''puuid'' = Inr pu \<and> player_of s pu = None)"
proof (induction p_info arbitrary: s batch s')
  case Nil
  then show ?case by simp
next
  case (Cons d ds)
  from Cons.prems obtain md where md: "dict_get m_info ''matchStart'' = Inr md"
    by (auto split: sum.splits)
  from Cons.prems md obtain v s1 where up: "update_player_if_exists d md s = (Inr v, s1)"
    by (auto split: sum.splits prod.splits)
  from Cons.prems md up obtain b where rest: "new_players ds m_info s1 = (Inr b, s')"
    and batch: "batch = (if py_eq v (PBool True) then b else d # b)"
    by (auto split: sum.splits prod.splits)
  note pu1 = update_player_if_exists_puuids [OF up]
  from Cons.IH [OF rest]
  have ih: "map puuid (players s') = map puuid (players s1)"
    "\<forall>d \<in> set b. \<exists>pu. dict_get d ''puuid'' = Inr pu \<and> player_of s1 pu = None"
    by blast+
  have b_ok: "\<forall>d \<in> set b. \<exists>pu. dict_get d ''puuid'' = Inr pu \<and> player_of s pu = None"
    using ih(2) pu1 by (simp add: player_of_None)
  show ?case
  proof (cases "py_eq v (PBool True)")
    case True
    with batch b_ok ih(1) pu1 show ?thesis by simp
  next
    case False
    from update_player_if_exists_None [OF up False] batch False b_ok ih(1) pu1
    show ?thesis by auto
  qed
qed

lemma update_player_if_exists_cursor:
  assumes c: "cursor_of s pu = Some c" and up: "update_player_if_exists obs md s = (r, s2)"
  shows "\<exists>c'. cursor_of s2 pu = Some c' \<and> c' \<le> c \<and>
            (c' \<noteq> c \<longrightarrow> md = PDateTime c' \<and> dict_get obs ''puuid'' = Inr pu)"
proof -
  from c obtain p where p: "find (\<lambda>p. puuid p = pu) (players s) = Some p" "lastMatchFetch p = c"
    by (auto simp: cursor_of_def)
  from update_player_if_exists_cases [OF up]
  show ?thesis
  proof (elim disjE exE conjE)
    assume "s2 = s"
    with c show ?thesis by simp
  next
    fix pu' p' t v1 v2 v3 v4 v5 v6
    assume a: "dict_get obs ''puuid'' = Inr pu'" "player_of s pu' = Some p'" "md = PDateTime t"
      "t < lastMatchFetch p'"
      and s2: "s2 = s\<lparr>players := update_first (\<lambda>p. puuid p = pu')
                  (\<lambda>p. p\<lparr>summonerId := v1, gameName := v2, tagLine := v3, summonerLevel := v4,
                         profileIconId := v5, lastMatchFetch := t, region := v6\<rparr>)
                  (players s)\<rparr>"
    show ?thesis
    proof (cases "pu' = pu")
      case True
      with a p have "p' = p" by (simp add: player_of_def)
      with True a p s2 show ?thesis
        by (simp add: cursor_of_def find_update_first_same)
    next
      case False
      then have "find (\<lambda>p. puuid p = pu) (players s2) = find (\<lambda>p. puuid p = pu) (players s)"
        unfolding s2 by (simp add: find_update_first_puuid)
      with p show ?thesis by (simp add: cursor_of_def)
    qed
  qed
qed

text \<open>
  C1, as the claim states it, fails: a player with cursor 200 is seen in a match that
  started at 100, and \<open>update_player_if_exists\<close> sets the cursor back to 100.
\<close>

theorem cursor_regresses:
  "cursor_of store0 (PStr ''late'') = Some 200 \<and>
   cursor_of (snd (update_player_if_exists observation (PDateTime 100) store0)) (PStr ''late'')
     = Some 100"
  by (simp add: store_eval)

text \<open>
  C1, amended. \<open>update_last_fetch\<close> sets the cursor of the player to the clock of the
  store. \<open>update_player_if_exists\<close> never moves a cursor forward: a cursor that it
  changes belongs to the observed player and becomes the match date, which is
  strictly older.
\<close>

theorem cursor_writes:
  "(cursor_of s pu = Some c \<longrightarrow>
      (\<exists>s1. update_last_fetch pu s = (Inr (), s1) \<and> cursor_of s1 pu = Some (now s))) \<and>
   (cursor_of s pu = Some c \<longrightarrow> update_player_if_exists obs md s = (r, s2) \<longrightarrow>
      (\<exists>c'. cursor_of s2 pu = Some c' \<and> c' \<le> c \<and>
            (c' \<noteq> c \<longrightarrow> md = PDateTime c' \<and> dict_get obs ''puuid'' = Inr pu)))"
proof (intro conjI impI)
  assume c: "cursor_of s pu = Some c"
  then obtain p where p: "find (\<lambda>p. puuid p = pu) (players s) = Some p"
    by (auto simp: cursor_of_def)
  then show "\<exists>s1. update_last_fetch pu s = (Inr (), s1) \<and> cursor_of s1 pu = Some (now s)"
    by (simp add: update_last_fetch_def cursor_of_def find_update_first_same)
next
  assume "cursor_of s pu = Some c" and "update_player_if_exists obs md s = (r, s2)"
  then show "\<exists>c'. cursor_of s2 pu = Some c' \<and> c' \<le> c \<and>
            (c' \<noteq> c \<longrightarrow> md = PDateTime c' \<and> dict_get obs ''puuid'' = Inr pu)"
    by (rule update_player_if_exists_cursor)
qed

theorem cursor_writes_witness:
  "cursor_of store0 (PStr ''late'') = Some 200 \<and>
   cursor_of (snd (update_last_fetch (PStr ''late'') store0)) (PStr ''late'') = Some 300 \<and>
   cursor_of (snd (update_player_if_exists observation (PDateTime 100) store0)) (PStr ''late'')
     = Some 100 \<and>
   cursor_of (snd (update_player_if_exists observation (PDateTime 100) store0)) (PStr ''early'')
     = Some 100"
  using cursor_writes [of store0 "PStr ''late''" 200 observation "PDateTime 100"
          "fst (update_player_if_exists observation (PDateTime 100) store0)"
          "snd (update_player_if_exists observation (PDateTime 100) store0)"]
  by (simp add: store_eval)

text \<open>
  C5, as the claim states it, fails: the stored cursor (200) is newer than the start
  of the match (100), and the stored display name is overwritten.
\<close>

theorem stale_observation_overwrites:
  "map_option lastMatchFetch (player_of store0 (PStr ''late'')) = Some 200 \<and>
   map_option gameName (player_of store0 (PStr ''late'')) = Some (PStr ''Old Name'') \<and>
   map_option gameName
     (player_of (snd (update_player_if_exists observation (PDateTime 100) store0)) (PStr ''late''))
     = Some (PStr ''New Name'')"
  by (simp add: store_eval)

text \<open>
  C5, amended. An observation whose \<open>puuid\<close> is in the store never enters the batch
  of new players. If the stored cursor is not newer than the start of the match, the
  store is left as it is; if it is strictly newer, the display fields of the stored
  player are overwritten by those of the observation and the cursor becomes the start
  of the match.
\<close>

theorem existing_player_observation:
  assumes "dict_get obs ''puuid'' = Inr pu" and "player_of s pu = Some p"
  shows "(new_players p_info m_info s = (Inr batch, s1) \<longrightarrow> obs \<notin> set batch) \<and>
         (lastMatchFetch p \<le> t \<longrightarrow>
            update_player_if_exists obs (PDateTime t) s = (Inr (PBool True), s)) \<and>
         (t < lastMatchFetch p \<longrightarrow>
            dict_get obs ''summonerId'' = Inr v1 \<longrightarrow> dict_get obs ''gameName'' = Inr v2 \<longrightarrow>
            dict_get obs ''tagLine'' = Inr v3 \<longrightarrow> dict_get obs ''summonerLevel'' = Inr v4 \<longrightarrow>
            dict_get obs ''profileIconId'' = Inr v5 \<longrightarrow> dict_get obs ''region'' = Inr v6 \<longrightarrow>
            (\<exists>s2. update_player_if_exists obs (PDateTime t) s = (Inr (PBool True), s2) \<and>
                  player_of s2 pu =
                    Some (p\<lparr>summonerId := v1, gameName := v2, tagLine := v3, summonerLevel := v4,
                            profileIconId := v5, lastMatchFetch := t, region := v6\<rparr>)))"
proof (intro conjI impI)
  assume "new_players p_info m_info s = (Inr batch, s1)"
  from new_players_fresh [OF this] assms show "obs \<notin> set batch" by fastforce
next
  assume "lastMatchFetch p \<le> t"
  with assms show "update_player_if_exists obs (PDateTime t) s = (Inr (PBool True), s)"
    by (simp add: update_player_if_exists_def player_of_def)
next
  assume "t < lastMatchFetch p"
    "dict_get obs ''summonerId'' = Inr v1" "dict_get obs ''gameName'' = Inr v2"
    "dict_get obs ''tagLine'' = Inr v3" "dict_get obs ''summonerLevel'' = Inr v4"
    "dict_get obs ''profileIconId'' = Inr v5" "dict_get obs ''region'' = Inr v6"
  with assms
  show "\<exists>s2. update_player_if_exists obs (PDateTime t) s = (Inr (PBool True), s2) \<and>
              player_of s2 pu =
                Some (p\<lparr>summonerId := v1, gameName := v2, tagLine := v3, summonerLevel := v4,
                        profileIconId := v5, lastMatchFetch := t, region := v6\<rparr>)"
    by (simp add: update_player_if_exists_def player_of_def find_update_first_same)
qed


theorem existing_player_observation_witness:
  "dict_get observation ''puuid'' = Inr (PStr ''late'') \<and>
   player_of store0 (PStr ''late'') = Some late_player \<and>
   new_players [observation] [(''matchStart'', PDateTime 250)] store0 = (Inr [], store0) \<and>
   update_player_if_exists observation (PDateTime 250) store0 = (Inr (PBool True), store0) \<and>
   player_of (snd (update_player_if_exists observation (PDateTime 100) store0)) (PStr ''late'') =
     Some (late_player\<lparr>summonerId := PStr ''s-new'', gameName := PStr ''New Name'',
             tagLine := PStr ''NEW'', summonerLevel := PInt 31, profileIconId := PInt 7,
             lastMatchFetch := 100, region := PStr ''BR1''\<rparr>)"
  using existing_player_observation [of observation "PStr ''late''" store0 late_player
          "[observation]" "[(''matchStart'', PDateTime 250)]" "[]" store0 250]
        existing_player_observation [of observation "PStr ''late''" store0 late_player
          "[]" "[]" "[]" store0 100 "PStr ''s-new''" "PStr ''New Name''" "PStr ''NEW''"
          "PInt 31" "PInt 7" "PStr ''BR1''"]
  by (simp add: store_eval py_eq_def)


section \<open>Rating snapshots\<close>

text \<open>
  C2. The store holds one rating of the summoner (10 points, taken at time 1). The
  same page, with 20 points, comes in at time 2 and again at time 3.
  \<open>rating_up_to_date\<close> orders the summoner's rows by \<open>fetchTime\<close> ascending and
  takes the first, so both times it compares with the row of time 1: the page is
  written twice, and the store ends with two adjacent snapshots of equal points,
  wins and losses.
\<close>

theorem same_rating_twice:
  "map standing
     (ratings (snd (store_ratings ladder_page ''br1'' False
        ((snd (store_ratings ladder_page ''br1'' False (ladder_store 2 [old_rating])))
           \<lparr>now := 3\<rparr>))))
   = [(PInt 10, PInt 5, PInt 5, 1), (PInt 20, PInt 6, PInt 5, 2), (PInt 20, PInt 6, PInt 5, 3)]"
  by (simp add: ladder_eval)

section \<open>Paging through the match list\<close>

text \<open>Evaluating the timestamp of a cursor.\<close>

lemma floor_rat_numeral [simp]:
  "\<lfloor>(numeral a :: rat) / numeral b\<rfloor> = numeral a div numeral b"
  by (metis floor_divide_of_int_eq of_int_numeral)

lemmas timestamp_eval =
  whole_seconds_def datetime_timestamp_def to_double_def round_half_even_def
  binary_exponent_def pow2_def Let_def bit_length.simps

lemma whole_seconds_100: "whole_seconds 100 = 0"
  by (simp add: timestamp_eval)

lemma whole_seconds_100000000: "whole_seconds 100000000 = 100"
  by (simp add: timestamp_eval)

text \<open>
  The sum is rounded: a cursor of the year 3000 with 999999 microseconds is sent as
  the next second; a cursor of today is sent as its own second.
\<close>

lemma whole_seconds_rounds_up: "whole_seconds 32503680000999999 = 32503680001"
  by (simp add: timestamp_eval)

lemma whole_seconds_today: "whole_seconds 1714521601999999 = 1714521601"
  by (simp add: timestamp_eval)

text \<open>
  The rounding never reaches the next second while the cursor lies between the epoch
  and epoch second \<open>2 ^ 34\<close>: the error of a sum below \<open>2 ^ 34\<close> is at most
  \<open>2 ^ - 20\<close>, less than the microsecond that separates the sum from the next second.
\<close>

lemma bit_length_bounds:
  "0 < n \<Longrightarrow> 2 ^ (bit_length n - 1) \<le> n \<and> n < 2 ^ bit_length n"
proof (induction n rule: bit_length.induct)
  case (1 n)
  show ?case
  proof (cases "n div 2 = 0")
    case True
    with "1.prems" have "n = 1" by presburger
    then show ?thesis by (simp add: bit_length.simps)
  next
    case False
    then have "0 < n div 2" by simp
    with "1.IH" "1.prems"
    have ih: "2 ^ (bit_length (n div 2) - 1) \<le> n div 2" "n div 2 < 2 ^ bit_length (n div 2)"
      by auto
    have pos: "0 < bit_length (n div 2)"
      using False by (simp add: bit_length.simps [of "n div 2"])
    have bl: "bit_length n = Suc (bit_length (n div 2))"
      using "1.prems" by (simp add: bit_length.simps [of n])
    from pos have p2: "(2::nat) ^ bit_length (n div 2) = 2 * 2 ^ (bit_length (n div 2) - 1)"
      by (cases "bit_length (n div 2)") simp_all
    have a: "2 ^ (bit_length n - 1) \<le> n"
      unfolding bl using ih(1) p2 by simp
    have b: "n < 2 ^ bit_length n"
      unfolding bl using ih(2) by simp
    from a b show ?thesis ..
  qed
qed

lemma round_half_even_upper: "of_int (round_half_even x) \<le> x + 1 / 2"
  unfolding round_half_even_def Let_def by (simp; linarith)

lemma round_half_even_floor: "\<lfloor>x\<rfloor> \<le> round_half_even x"
  unfolding round_half_even_def Let_def by simp

lemma round_half_even_of_int [simp]: "round_half_even (of_int m) = m"
  by (simp add: round_half_even_def)


lemma pow2_nonpos: "e \<le> 0 \<Longrightarrow> pow2 e = 1 / 2 ^ nat (- e)"
  by (cases "e = 0") (simp_all add: pow2_def)

lemma pow2_pos: "0 < pow2 e"
  by (simp add: pow2_def)

lemma binary_exponent_ge1:
  assumes "1 \<le> x"
  shows "0 \<le> binary_exponent x" and "2 ^ nat (binary_exponent x) \<le> x"
proof -
  let ?n = "nat \<lfloor>x\<rfloor>"
  from assms have n: "0 < ?n" by simp
  from bit_length_bounds [OF n] have lo: "2 ^ (bit_length ?n - 1) \<le> ?n" by simp
  from n have bl: "0 < bit_length ?n" by (simp add: bit_length.simps [of ?n])
  have e: "binary_exponent x = int (bit_length ?n) - 1"
    using assms by (simp add: binary_exponent_def)
  from bl show "0 \<le> binary_exponent x" unfolding e by simp
  have ne: "nat (binary_exponent x) = bit_length ?n - 1" unfolding e using bl by simp
  from lo have "int (2 ^ (bit_length ?n - 1)) \<le> int ?n" by (simp only: of_nat_le_iff)
  then have "(2::int) ^ (bit_length ?n - 1) \<le> \<lfloor>x\<rfloor>" using assms by simp
  then have "(of_int ((2::int) ^ (bit_length ?n - 1)) :: rat) \<le> of_int \<lfloor>x\<rfloor>"
    by (simp only: of_int_le_iff)
  also have "\<dots> \<le> x" by (rule of_int_floor_le)
  finally show "2 ^ nat (binary_exponent x) \<le> x" unfolding ne by simp
qed

lemma binary_exponent_lt1:
  assumes "0 < x" and "x < 1"
  shows "binary_exponent x \<le> - 1"
proof -
  let ?n = "nat \<lfloor>1 / x\<rfloor>"
  from assms have "1 \<le> 1 / x" by simp
  then have n: "0 < ?n" by simp
  then have bl: "0 < bit_length ?n" by (simp add: bit_length.simps [of ?n])
  have nx: "\<not> 1 \<le> x" using assms by simp
  show ?thesis
  proof (cases "bit_length ?n = 1")
    case True
    have "x \<noteq> pow2 0" using assms by (simp add: pow2_def)
    then show ?thesis
      unfolding binary_exponent_def Let_def True using nx by simp
  next
    case False
    with bl have "2 \<le> bit_length ?n" by simp
    then show ?thesis
      unfolding binary_exponent_def Let_def using nx by (simp split: if_splits)
  qed
qed


lemma to_double_of_int:
  assumes "0 \<le> s" and "s < 2 ^ 53"
  shows "to_double (of_int s) = of_int s"
proof (cases "s = 0")
  case True
  then show ?thesis by (simp add: to_double_def)
next
  case False
  with assms have s1: "(1::rat) \<le> of_int s" by simp
  let ?e = "binary_exponent (of_int s)"
  note e = binary_exponent_ge1 [OF s1]
  from assms(2) have "(of_int s :: rat) < of_int (2 ^ 53)" by (simp only: of_int_less_iff)
  then have "(of_int s :: rat) < 2 ^ 53" by simp
  with e(2) have "(2::rat) ^ nat ?e < 2 ^ 53" by (rule le_less_trans)
  then have "nat ?e < 53" by (simp only: power_strict_increasing_iff one_less_numeral_iff semiring_norm)
  with e(1) have e52: "?e \<le> 52" by simp
  have abs: "\<bar>of_int s :: rat\<bar> = of_int s" using assms by simp
  have mx: "max ?e (- 1022) = ?e" using e(1) by simp
  have q: "pow2 (max ?e (- 1022) - 52) = 1 / 2 ^ nat (52 - ?e)"
    unfolding mx using e52 by (simp add: pow2_nonpos)
  have d: "of_int s / (1 / 2 ^ nat (52 - ?e)) = (of_int (s * 2 ^ nat (52 - ?e)) :: rat)"
    by simp
  have nz: "(of_int s :: rat) \<noteq> 0" using False by simp
  have "to_double (of_int s) =
          of_int (round_half_even (of_int (s * 2 ^ nat (52 - ?e)))) * (1 / 2 ^ nat (52 - ?e))"
    unfolding to_double_def abs Let_def q d using nz by (simp only: if_False)
  also have "\<dots> = of_int s"
    by (simp only: round_half_even_of_int) simp
  finally show ?thesis .
qed


lemma to_double_rounding:
  assumes "x \<noteq> 0" and "binary_exponent \<bar>x\<bar> \<le> b" and "- 1022 \<le> b" and "b \<le> 52"
  shows "to_double x \<le> x + 1 / 2 ^ Suc (nat (52 - b))"
    and "of_int \<lfloor>x * 2 ^ nat (52 - max (binary_exponent \<bar>x\<bar>) (- 1022))\<rfloor> /
           2 ^ nat (52 - max (binary_exponent \<bar>x\<bar>) (- 1022)) \<le> to_double x"
proof -
  let ?m = "max (binary_exponent \<bar>x\<bar>) (- 1022)"
  let ?k = "nat (52 - ?m)"
  from assms have m: "?m \<le> b" by simp
  then have m52: "?m - 52 \<le> 0" using assms(4) by simp
  have q: "pow2 (?m - 52) = 1 / 2 ^ ?k"
    using pow2_nonpos [OF m52] by (simp add: algebra_simps)
  have td: "to_double x = of_int (round_half_even (x * 2 ^ ?k)) / 2 ^ ?k"
    using assms(1) unfolding to_double_def Let_def q by simp
  have pos: "(0::rat) < 2 ^ ?k" by simp
  have "of_int (round_half_even (x * 2 ^ ?k)) \<le> x * 2 ^ ?k + 1 / 2"
    by (rule round_half_even_upper)
  then have "of_int (round_half_even (x * 2 ^ ?k)) / 2 ^ ?k \<le> (x * 2 ^ ?k + 1 / 2) / 2 ^ ?k"
    using pos by (simp only: divide_right_mono less_imp_le)
  also have "\<dots> = x + 1 / 2 ^ Suc ?k"
    by (simp add: field_simps)
  finally have up: "to_double x \<le> x + 1 / 2 ^ Suc ?k" unfolding td .
  from m have "52 - b \<le> 52 - ?m" by linarith
  then have "nat (52 - b) \<le> ?k" by (rule nat_mono)
  then have "(2::rat) ^ Suc (nat (52 - b)) \<le> 2 ^ Suc ?k"
    by (simp only: power_increasing_iff one_less_numeral_iff semiring_norm Suc_le_mono)
  then have "1 / (2::rat) ^ Suc ?k \<le> 1 / 2 ^ Suc (nat (52 - b))"
    by (simp add: frac_le)
  with up show "to_double x \<le> x + 1 / 2 ^ Suc (nat (52 - b))" by linarith
  have "(of_int \<lfloor>x * 2 ^ ?k\<rfloor> :: rat) \<le> of_int (round_half_even (x * 2 ^ ?k))"
    using round_half_even_floor [of "x * 2 ^ ?k"] by (simp only: of_int_le_iff)
  then show "of_int \<lfloor>x * 2 ^ ?k\<rfloor> / 2 ^ ?k \<le> to_double x"
    unfolding td using pos by (simp only: divide_right_mono less_imp_le)
qed


lemma to_double_fraction:
  assumes "0 \<le> x" and "x < 1"
  shows "0 \<le> to_double x" and "to_double x \<le> x + 1 / 2 ^ 54"
proof -
  show "0 \<le> to_double x"
  proof (cases "x = 0")
    case True
    then show ?thesis by (simp add: to_double_def)
  next
    case False
    with assms have e: "binary_exponent \<bar>x\<bar> \<le> - 1"
      by (simp add: binary_exponent_lt1)
    let ?k = "nat (52 - max (binary_exponent \<bar>x\<bar>) (- 1022))"
    have "0 \<le> x * 2 ^ ?k" using assms(1) by simp
    then have "(0::rat) \<le> of_int \<lfloor>x * 2 ^ ?k\<rfloor> / 2 ^ ?k" by simp
    also have "\<dots> \<le> to_double x"
      by (rule to_double_rounding(2) [OF False e]) simp_all
    finally show ?thesis .
  qed
  show "to_double x \<le> x + 1 / 2 ^ 54"
  proof (cases "x = 0")
    case True
    then show ?thesis by (simp add: to_double_def)
  next
    case False
    with assms have e: "binary_exponent \<bar>x\<bar> \<le> - 1"
      by (simp add: binary_exponent_lt1)
    from to_double_rounding(1) [OF False e] show ?thesis by simp
  qed
qed

lemma to_double_sum:
  assumes "1 \<le> s" and "s < 2 ^ 34" and "0 \<le> f" and "f < 1 - 1 / 2 ^ 20"
  shows "of_int s \<le> to_double (of_int s + f)" and "to_double (of_int s + f) < of_int s + 1"
proof -
  let ?x = "of_int s + f :: rat"
  from assms have x1: "1 \<le> ?x" by simp
  then have nz: "?x \<noteq> 0" and ab: "\<bar>?x\<bar> = ?x" by simp_all
  note e = binary_exponent_ge1 [OF x1]
  from assms(2) have "s + 1 \<le> 2 ^ 34" by simp
  then have "(of_int (s + 1) :: rat) \<le> of_int (2 ^ 34)" by (simp only: of_int_le_iff)
  then have "(of_int s :: rat) + 1 \<le> 2 ^ 34" by simp
  with assms(4) have "?x < 2 ^ 34" by simp
  with e(2) have "(2::rat) ^ nat (binary_exponent ?x) < 2 ^ 34" by (rule le_less_trans)
  then have "nat (binary_exponent ?x) < 34"
    by (simp only: power_strict_increasing_iff one_less_numeral_iff semiring_norm)
  with e(1) have e33: "binary_exponent \<bar>?x\<bar> \<le> 33" unfolding ab by simp
  from to_double_rounding(1) [OF nz e33] have "to_double ?x \<le> ?x + 1 / 2 ^ 20" by simp
  with assms(4) show "to_double ?x < of_int s + 1" by simp
  let ?k = "nat (52 - max (binary_exponent \<bar>?x\<bar>) (- 1022))"
  have "(of_int (s * 2 ^ ?k) :: rat) \<le> ?x * 2 ^ ?k"
    using assms(3) by (simp add: algebra_simps)
  then have "s * 2 ^ ?k \<le> \<lfloor>?x * 2 ^ ?k\<rfloor>" by (simp only: le_floor_iff)
  then have "(of_int (s * 2 ^ ?k) :: rat) \<le> of_int \<lfloor>?x * 2 ^ ?k\<rfloor>"
    by (simp only: of_int_le_iff)
  then have "(of_int (s * 2 ^ ?k) :: rat) / 2 ^ ?k \<le> of_int \<lfloor>?x * 2 ^ ?k\<rfloor> / 2 ^ ?k"
    by (simp only: divide_right_mono zero_le_power zero_le_numeral)
  then have "(of_int s :: rat) \<le> of_int \<lfloor>?x * 2 ^ ?k\<rfloor> / 2 ^ ?k" by simp
  also have "\<dots> \<le> to_double ?x"
    by (rule to_double_rounding(2) [OF nz e33]) simp_all
  finally show "of_int s \<le> to_double ?x" .
qed

text \<open>
  From the epoch to epoch second \<open>2 ^ 34\<close> (the year 2514), the whole seconds of the
  timestamp are the seconds of the datetime.
\<close>

lemma whole_seconds_exact:
  assumes "0 \<le> t" and "t < 17179869184000000"
  shows "whole_seconds t = t div 1000000"
proof -
  let ?s = "t div 1000000" and ?u = "t mod 1000000"
  let ?f = "to_double (of_int ?u / 1000000)"
  from assms have s: "0 \<le> ?s" "?s < 2 ^ 34" by simp_all
  have u: "0 \<le> ?u" "?u \<le> 999999" by simp_all
  then have ux: "(0::rat) \<le> of_int ?u / 1000000" "(of_int ?u :: rat) / 1000000 \<le> 999999 / 1000000"
    by simp_all
  then have ux1: "(of_int ?u :: rat) / 1000000 < 1" by simp
  from to_double_fraction [OF ux(1) ux1] ux(2)
  have f: "0 \<le> ?f" "?f < 1 - 1 / 2 ^ 20" by simp_all
  from s have si: "to_double (of_int ?s) = of_int ?s"
    by (intro to_double_of_int) simp_all
  have ts: "datetime_timestamp t = to_double (of_int ?s + ?f)"
    by (simp add: datetime_timestamp_def si)
  show ?thesis
  proof (cases "?s = 0")
    case True
    from f have f1: "?f < 1" by simp
    from to_double_fraction [OF f(1) f1] f(2)
    have "0 \<le> to_double ?f" "to_double ?f < 1" by simp_all
    then have "0 \<le> datetime_timestamp t" "\<lfloor>datetime_timestamp t\<rfloor> = 0"
      unfolding ts True by (simp_all add: floor_eq_iff)
    then show ?thesis unfolding True by (simp add: whole_seconds_def)
  next
    case False
    with s have s1: "1 \<le> ?s" by simp
    from to_double_sum [OF s1 s(2) f]
    have b: "of_int ?s \<le> datetime_timestamp t" "datetime_timestamp t < of_int ?s + 1"
      unfolding ts by simp_all
    from s(1) have "(0::rat) \<le> of_int ?s" by simp
    with b(1) have nn: "0 \<le> datetime_timestamp t" by linarith
    from b have "\<lfloor>datetime_timestamp t\<rfloor> = ?s" by (simp add: floor_eq_iff)
    with nn show ?thesis by (simp add: whole_seconds_def Let_def)
  qed
qed

text \<open>A reply with status 200 ends the call of a fresh fetcher with the decoded body.\<close>

lemma fetch_ok:
  "fetch u (BaseFetcher_init k, \<lparr>replies = Inr (ok_reply b) # rest, requests = rq, sleeps = sl\<rparr>)
     = (Inr b, BaseFetcher_init k, \<lparr>replies = rest, requests = rq @ [u], sleeps = sl\<rparr>)"
  by (simp add: fetch_eval fun_upd_idem)

lemma get_match_list_ok:
  "get_match_list reg pu (PDateTime t) ls
     (BaseFetcher_init k, \<lparr>replies = Inr (ok_reply b) # rest, requests = rq, sleeps = sl\<rparr>)
   = (Inr b, BaseFetcher_init k,
      \<lparr>replies = rest, requests = rq @ [MatchListUrl reg pu (whole_seconds t) ls 100],
        sleeps = sl\<rparr>)"
  by (simp add: get_match_list_def timestamp_seconds_def fetch_ok wrap_def)

lemma collect_match_list_page:
  assumes "get_match_list reg pu (PDateTime t) ls sw = (Inr (PList ids), sw')"
  shows "collect_match_list reg (selected pu t) ml ls sw =
           (if length ids = 100
            then collect_match_list reg (selected pu t) (ml @ ids) (ls + 100) sw'
            else (Inr (ml @ ids, ls), sw'))"
  using assms
  by (cases sw; cases sw') (simp add: collect_match_list.simps selected_def)

lemma page_requests_Suc:
  "page_requests reg pu ts start (Suc n) =
     MatchListUrl reg pu ts start 100 # page_requests reg pu ts (start + 100) n"
  by (simp add: page_requests_def map_upt_Suc algebra_simps del: upt_Suc)

text \<open>Full pages, then a shorter one: the loop takes them all and stops.\<close>

lemma collect_pages:
  assumes "\<forall>ids \<in> set full. length ids = 100" and "length short < 100"
  shows "collect_match_list reg (selected pu t) ml ls
           (BaseFetcher_init k,
            \<lparr>replies = page_replies (full @ [short]) @ rest, requests = rq, sleeps = sl\<rparr>)
         = (Inr (ml @ concat full @ short, ls + 100 * int (length full)),
            BaseFetcher_init k,
            \<lparr>replies = rest,
              requests = rq @ page_requests reg pu (whole_seconds t) ls (Suc (length full)),
              sleeps = sl\<rparr>)"
  using assms(1)
proof (induction full arbitrary: ml ls rq)
  case Nil
  with assms(2) show ?case
    by (simp add: page_replies_def collect_match_list_page [OF get_match_list_ok]
          page_requests_def)
next
  case (Cons ids full)
  then have len: "length ids = 100" and rest: "\<forall>ids \<in> set full. length ids = 100"
    by simp_all
  have "collect_match_list reg (selected pu t) ml ls
           (BaseFetcher_init k,
            \<lparr>replies = page_replies ((ids # full) @ [short]) @ rest, requests = rq, sleeps = sl\<rparr>)
        = collect_match_list reg (selected pu t) (ml @ ids) (ls + 100)
           (BaseFetcher_init k,
            \<lparr>replies = page_replies (full @ [short]) @ rest,
              requests = rq @ [MatchListUrl reg pu (whole_seconds t) ls 100], sleeps = sl\<rparr>)"
    using len
    by (simp add: page_replies_def collect_match_list_page [OF get_match_list_ok])
  also have "\<dots> = (Inr ((ml @ ids) @ concat full @ short, (ls + 100) + 100 * int (length full)),
            BaseFetcher_init k,
            \<lparr>replies = rest,
              requests = (rq @ [MatchListUrl reg pu (whole_seconds t) ls 100]) @
                 page_requests reg pu (whole_seconds t) (ls + 100) (Suc (length full)),
              sleeps = sl\<rparr>)"
    by (rule Cons.IH [OF rest])
  finally show ?case
    by (simp add: page_requests_Suc [of reg pu "whole_seconds t" ls "Suc (length full)"])
qed

text \<open>The player that a round of the crawler selects.\<close>

lemma get_next_to_fetch_selected:
  assumes "eligible regions s \<noteq> {}"
  shows "\<exists>p \<in> eligible regions s.
           get_next_to_fetch regions s = selected (puuid p) (lastMatchFetch p) \<and>
           (\<forall>q \<in> eligible regions s. lastMatchFetch p \<le> lastMatchFetch q)"
proof -
  let ?xs = "filter (\<lambda>p. region p \<in> PStr ` set regions) (players s)"
  have el: "eligible regions s = set ?xs" by (auto simp: eligible_def)
  from assms have "set ?xs \<noteq> {}"
    unfolding el .
  then have "?xs \<noteq> []"
    by (simp only: set_empty not_False_eq_True)
  then have "sort_key lastMatchFetch ?xs \<noteq> []"
    by (simp add: sort_key_Nil_iff)
  then obtain p ps where ps: "sort_key lastMatchFetch ?xs = p # ps"
    by (cases "sort_key lastMatchFetch ?xs") auto
  from sort_key_head_min [OF ps]
  have "p \<in> set ?xs" "\<forall>q \<in> set ?xs. lastMatchFetch p \<le> lastMatchFetch q"
    by blast+
  with ps el show ?thesis
    by (auto simp: get_next_to_fetch_def selected_def)
qed

text \<open>
  C8. Each request of the paging loop asks for 100 ids from the current offset, with
  the cursor of the player (the whole seconds of its timestamp) as \<open>startTime\<close>. A
  page of exactly 100 ids is appended and the loop goes on with the offset advanced
  by 100; a page of fewer than 100 ids is appended and ends the loop. When the
  listing is 100 ids and then none, a fresh fetcher sends two requests, at offsets 0
  and 100; the offset is advanced once, the result is exactly the 100 ids, and the
  replies that follow are left alone.

  So does a round of the crawler. When players are registered, the round selects one
  with minimal cursor; when the server then serves full pages and a shorter one, the
  round sends one request per page, from offset 0 in steps of 100 with that player's
  cursor as \<open>startTime\<close>, and none after the shorter page; it goes on to process
  exactly the ids of those pages, and then to \<open>update_last_fetch\<close> of that player.
  For a cursor between the epoch and the year 2514, \<open>startTime\<close> is the cursor in
  whole seconds.
\<close>

theorem match_list_pagination:
  "(get_match_list reg pu (PDateTime t) ls sw = (Inr (PList ids), sw') \<longrightarrow> length ids = 100 \<longrightarrow>
      collect_match_list reg (selected pu t) ml ls sw =
        collect_match_list reg (selected pu t) (ml @ ids) (ls + 100) sw') \<and>
   (get_match_list reg pu (PDateTime t) ls sw = (Inr (PList ids), sw') \<longrightarrow> length ids < 100 \<longrightarrow>
      collect_match_list reg (selected pu t) ml ls sw = (Inr (ml @ ids, ls), sw')) \<and>
   (length ids = 100 \<longrightarrow>
      collect_match_list reg (selected pu t) [] 0
        (BaseFetcher_init k,
         \<lparr>replies = Inr (ok_reply (PList ids)) # Inr (ok_reply (PList [])) # rest,
           requests = [], sleeps = []\<rparr>)
      = (Inr (ids, 100), BaseFetcher_init k,
         \<lparr>replies = rest,
           requests = [MatchListUrl reg pu (whole_seconds t) 0 100,
                       MatchListUrl reg pu (whole_seconds t) 100 100],
           sleeps = []\<rparr>)) \<and>
   (eligible regions (store st) \<noteq> {} \<longrightarrow> fetcher st = BaseFetcher_init k \<longrightarrow>
    net st = \<lparr>replies = page_replies (full @ [short]) @ rest, requests = rq, sleeps = sl\<rparr> \<longrightarrow>
    (\<forall>ids \<in> set full. length ids = 100) \<longrightarrow> length short < 100 \<longrightarrow>
      (\<exists>p \<in> eligible regions (store st).
         (\<forall>q \<in> eligible regions (store st). lastMatchFetch p \<le> lastMatchFetch q) \<and>
         crawl_player reg regions st =
           (case process_matches reg (concat full @ short)
                   (st\<lparr>net := \<lparr>replies = rest,
                                requests = rq @ page_requests reg (puuid p)
                                    (whole_seconds (lastMatchFetch p)) 0 (Suc (length full)),
                                sleeps = sl\<rparr>\<rparr>) of
              (Inl e, st') \<Rightarrow> (Inl e, st')
            | (Inr u, st') \<Rightarrow>
                (case update_last_fetch (puuid p) (store st') of
                   (r, s') \<Rightarrow> (r, st'\<lparr>store := s'\<rparr>))))) \<and>
   (0 \<le> t \<longrightarrow> t < 17179869184000000 \<longrightarrow> whole_seconds t = t div 1000000)"
proof (intro conjI impI)
  assume "0 \<le> t" "t < 17179869184000000"
  then show "whole_seconds t = t div 1000000"
    by (rule whole_seconds_exact)
next
  assume "get_match_list reg pu (PDateTime t) ls sw = (Inr (PList ids), sw')" "length ids = 100"
  then show "collect_match_list reg (selected pu t) ml ls sw =
        collect_match_list reg (selected pu t) (ml @ ids) (ls + 100) sw'"
    by (simp add: collect_match_list_page)
next
  assume "get_match_list reg pu (PDateTime t) ls sw = (Inr (PList ids), sw')" "length ids < 100"
  then show "collect_match_list reg (selected pu t) ml ls sw = (Inr (ml @ ids, ls), sw')"
    by (simp add: collect_match_list_page)
next
  assume len: "length ids = 100"
  show "collect_match_list reg (selected pu t) [] 0
        (BaseFetcher_init k,
         \<lparr>replies = Inr (ok_reply (PList ids)) # Inr (ok_reply (PList [])) # rest,
           requests = [], sleeps = []\<rparr>)
      = (Inr (ids, 100), BaseFetcher_init k,
         \<lparr>replies = rest,
           requests = [MatchListUrl reg pu (whole_seconds t) 0 100,
                       MatchListUrl reg pu (whole_seconds t) 100 100],
           sleeps = []\<rparr>)"
    by (simp add: collect_match_list_page [OF get_match_list_ok] len)
next
  assume el: "eligible regions (store st) \<noteq> {}"
    and f: "fetcher st = BaseFetcher_init k"
    and n: "net st = \<lparr>replies = page_replies (full @ [short]) @ rest, requests = rq, sleeps = sl\<rparr>"
    and full: "\<forall>ids \<in> set full. length ids = 100" and short: "length short < 100"
  from get_next_to_fetch_selected [OF el] obtain p
    where p: "p \<in> eligible regions (store st)"
      and sel: "get_next_to_fetch regions (store st) = selected (puuid p) (lastMatchFetch p)"
      and least: "\<forall>q \<in> eligible regions (store st). lastMatchFetch p \<le> lastMatchFetch q"
    by blast
  have pu: "getitem (selected (puuid p) (lastMatchFetch p)) (K ''puuid'') = Inr (puuid p)"
    by (simp add: selected_def)
  have same: "st\<lparr>fetcher := BaseFetcher_init k, net := w\<rparr> = st\<lparr>net := w\<rparr>" for w
    using f by (cases st) simp
  have "crawl_player reg regions st =
           (case process_matches reg (concat full @ short)
                   (st\<lparr>net := \<lparr>replies = rest,
                                requests = rq @ page_requests reg (puuid p)
                                    (whole_seconds (lastMatchFetch p)) 0 (Suc (length full)),
                                sleeps = sl\<rparr>\<rparr>) of
              (Inl e, st') \<Rightarrow> (Inl e, st')
            | (Inr u, st') \<Rightarrow>
                (case update_last_fetch (puuid p) (store st') of
                   (r, s') \<Rightarrow> (r, st'\<lparr>store := s'\<rparr>)))"
    unfolding crawl_player_def sel Let_def f n
    by (simp add: collect_pages [OF full short, of _ _ _ "[]" 0] pu same
             split: prod.splits sum.splits)
  with p least
  show "\<exists>p \<in> eligible regions (store st).
         (\<forall>q \<in> eligible regions (store st). lastMatchFetch p \<le> lastMatchFetch q) \<and>
         crawl_player reg regions st =
           (case process_matches reg (concat full @ short)
                   (st\<lparr>net := \<lparr>replies = rest,
                                requests = rq @ page_requests reg (puuid p)
                                    (whole_seconds (lastMatchFetch p)) 0 (Suc (length full)),
                                sleeps = sl\<rparr>\<rparr>) of
              (Inl e, st') \<Rightarrow> (Inl e, st')
            | (Inr u, st') \<Rightarrow>
                (case update_last_fetch (puuid p) (store st') of
                   (r, s') \<Rightarrow> (r, st'\<lparr>store := s'\<rparr>)))"
    by blast
qed

lemma hundred_ids_Cons: "hundred_ids = PInt 0 # map (\<lambda>i. PInt (int i)) [1..<100]"
  by (simp add: hundred_ids_def upt_conv_Cons del: upt_Suc)

lemma get_match_data_down:
  "get_match_data reg m (BaseFetcher_init k, \<lparr>replies = [], requests = rq, sleeps = sl\<rparr>)
   = (Inl (Wrapped ''Error occured on get_match_data'' ConnectionError), BaseFetcher_init k,
      \<lparr>replies = [], requests = rq @ [MatchDataUrl reg m], sleeps = sl\<rparr>)"
  by (simp add: get_match_data_def fetch_eval wrap_def)

theorem match_list_pagination_witness:
  "length hundred_ids = 100 \<and>
   whole_seconds 100000000 = 100 \<and>
   eligible [''na1'', ''br1''] store0 \<noteq> {} \<and>
   collect_match_list ''americas'' (selected (PStr ''early'') 100000000) [] 0
        (BaseFetcher_init (PStr ''key''),
         \<lparr>replies = [Inr (ok_reply (PList hundred_ids)), Inr (ok_reply (PList []))],
           requests = [], sleeps = []\<rparr>)
      = (Inr (hundred_ids, 100), BaseFetcher_init (PStr ''key''),
         \<lparr>replies = [],
           requests = [MatchListUrl ''americas'' (PStr ''early'') 100 0 100,
                       MatchListUrl ''americas'' (PStr ''early'') 100 100 100],
           sleeps = []\<rparr>) \<and>
   collect_match_list ''americas'' (selected (PStr ''early'') 100000000) [] 0
        (BaseFetcher_init (PStr ''key''),
         \<lparr>replies = [Inr (ok_reply (PList [PStr ''M1'']))], requests = [], sleeps = []\<rparr>)
      = (Inr ([PStr ''M1''], 0), BaseFetcher_init (PStr ''key''),
         \<lparr>replies = [],
           requests = [MatchListUrl ''americas'' (PStr ''early'') 100 0 100],
           sleeps = []\<rparr>) \<and>
   crawl_player ''americas'' [''na1'', ''br1''] (crawler0 (page_replies [hundred_ids, []]))
      = (Inl (Wrapped ''Error occured on get_match_data'' ConnectionError),
         (crawler0 [])\<lparr>net :=
            \<lparr>replies = [],
              requests = [MatchListUrl ''americas'' (PStr ''early'') 0 0 100,
                          MatchListUrl ''americas'' (PStr ''early'') 0 100 100,
                          MatchDataUrl ''americas'' (PInt 0)],
              sleeps = []\<rparr>\<rparr>)"
proof -
  let ?st = "crawler0 (page_replies [hundred_ids, []])"
  have len: "length hundred_ids = 100" by (simp add: hundred_ids_def)
  have c0: "whole_seconds 100000000 = 100"
    using match_list_pagination
      [of _ _ 100000000, THEN conjunct2, THEN conjunct2, THEN conjunct2, THEN conjunct2]
    by simp
  have el: "eligible [''na1'', ''br1''] store0 = {late_player, early_player}"
    by (auto simp: eligible_def store_eval)
  have c1: "collect_match_list ''americas'' (selected (PStr ''early'') 100000000) [] 0
        (BaseFetcher_init (PStr ''key''),
         \<lparr>replies = [Inr (ok_reply (PList hundred_ids)), Inr (ok_reply (PList []))],
           requests = [], sleeps = []\<rparr>)
      = (Inr (hundred_ids, 100), BaseFetcher_init (PStr ''key''),
         \<lparr>replies = [],
           requests = [MatchListUrl ''americas'' (PStr ''early'') 100 0 100,
                       MatchListUrl ''americas'' (PStr ''early'') 100 100 100],
           sleeps = []\<rparr>)"
    using match_list_pagination
      [of "''americas''" "PStr ''early''" 100000000 0 _ hundred_ids _ "[]" "PStr ''key''" "[]"]
      len
    by (simp add: whole_seconds_100000000)
  have c2: "collect_match_list ''americas'' (selected (PStr ''early'') 100000000) [] 0
        (BaseFetcher_init (PStr ''key''),
         \<lparr>replies = [Inr (ok_reply (PList [PStr ''M1'']))], requests = [], sleeps = []\<rparr>)
      = (Inr ([PStr ''M1''], 0), BaseFetcher_init (PStr ''key''),
         \<lparr>replies = [],
           requests = [MatchListUrl ''americas'' (PStr ''early'') 100 0 100],
           sleeps = []\<rparr>)"
    using match_list_pagination
      [of "''americas''" "PStr ''early''" 100000000 0
          "(BaseFetcher_init (PStr ''key''),
            \<lparr>replies = [Inr (ok_reply (PList [PStr ''M1'']))], requests = [], sleeps = []\<rparr>)"
          "[PStr ''M1'']"
          "(BaseFetcher_init (PStr ''key''),
            \<lparr>replies = [], requests = [MatchListUrl ''americas'' (PStr ''early'') 100 0 100],
              sleeps = []\<rparr>)" "[]"]
    by (simp add: get_match_list_ok whole_seconds_100000000)
  have st_el: "eligible [''na1'', ''br1''] (store ?st) \<noteq> {}"
    by (simp add: crawler0_def el)
  have st_f: "fetcher ?st = BaseFetcher_init (PStr ''key'')"
    by (simp add: crawler0_def)
  have st_n: "net ?st = \<lparr>replies = page_replies ([hundred_ids] @ [[]]) @ [], requests = [],
                sleeps = []\<rparr>"
    by (simp add: crawler0_def)
  have "\<exists>p \<in> eligible [''na1'', ''br1''] (store ?st).
         (\<forall>q \<in> eligible [''na1'', ''br1''] (store ?st). lastMatchFetch p \<le> lastMatchFetch q) \<and>
         crawl_player ''americas'' [''na1'', ''br1''] ?st =
           (case process_matches ''americas'' (concat [hundred_ids] @ [])
                   (?st\<lparr>net := \<lparr>replies = [],
                                requests = [] @ page_requests ''americas'' (puuid p)
                                    (whole_seconds (lastMatchFetch p)) 0 (Suc (length [hundred_ids])),
                                sleeps = []\<rparr>\<rparr>) of
              (Inl e, st') \<Rightarrow> (Inl e, st')
            | (Inr u, st') \<Rightarrow>
                (case update_last_fetch (puuid p) (store st') of
                   (r, s') \<Rightarrow> (r, st'\<lparr>store := s'\<rparr>)))"
    by (rule match_list_pagination
          [THEN conjunct2, THEN conjunct2, THEN conjunct2, THEN conjunct1, rule_format,
           OF st_el st_f st_n])
       (simp_all add: len)
  then obtain p
    where p: "p \<in> {late_player, early_player}"
      and least: "\<forall>q \<in> {late_player, early_player}. lastMatchFetch p \<le> lastMatchFetch q"
      and round: "crawl_player ''americas'' [''na1'', ''br1''] ?st =
           (case process_matches ''americas'' (concat [hundred_ids] @ [])
                   (?st\<lparr>net := \<lparr>replies = [],
                                requests = [] @ page_requests ''americas'' (puuid p)
                                    (whole_seconds (lastMatchFetch p)) 0 (Suc (length [hundred_ids])),
                                sleeps = []\<rparr>\<rparr>) of
              (Inl e, st') \<Rightarrow> (Inl e, st')
            | (Inr u, st') \<Rightarrow>
                (case update_last_fetch (puuid p) (store st') of
                   (r, s') \<Rightarrow> (r, st'\<lparr>store := s'\<rparr>)))"
    unfolding crawler0_def state.simps el by blast
  from p least have pe: "p = early_player"
    by (auto simp: late_player_def early_player_def)
  have c3: "crawl_player ''americas'' [''na1'', ''br1''] ?st
      = (Inl (Wrapped ''Error occured on get_match_data'' ConnectionError),
         (crawler0 [])\<lparr>net :=
            \<lparr>replies = [],
              requests = [MatchListUrl ''americas'' (PStr ''early'') 0 0 100,
                          MatchListUrl ''americas'' (PStr ''early'') 0 100 100,
                          MatchDataUrl ''americas'' (PInt 0)],
              sleeps = []\<rparr>\<rparr>)"
    unfolding round pe
    by (simp add: hundred_ids_Cons process_match_def match_on_db_def crawler0_def store0_def
          early_player_def page_requests_def whole_seconds_100 get_match_data_down)
  from len c0 el c1 c2 c3 show ?thesis by simp
qed

section \<open>Aborted games\<close>

lemma get_match_data_ok:
  "get_match_data reg m
     (BaseFetcher_init k, \<lparr>replies = Inr (ok_reply b) # rest, requests = rq, sleeps = sl\<rparr>)
   = (Inr b, BaseFetcher_init k,
      \<lparr>replies = rest, requests = rq @ [MatchDataUrl reg m], sleeps = sl\<rparr>)"
  by (simp add: get_match_data_def fetch_ok wrap_def)

text \<open>
  C9. For a payload whose \<open>endOfGameResult\<close> is "Abort_Unexpected",
  \<open>get_match_info\<close> returns \<open>None\<close>, and the crawler that fetched this payload for
  a match ends the processing of the match normally with the store as it was: no
  player, match or stats row is written.
\<close>

theorem aborted_match_skipped:
  assumes "getpath data [K ''info'', K ''endOfGameResult''] = Inr (PStr ''Abort_Unexpected'')"
  shows "get_match_info data = Inr None \<and>
         (get_match_data reg m (fetcher st, net st) = (Inr data, self', w') \<longrightarrow>
            (\<exists>st'. process_match reg m st = (Inr (), st') \<and> store st' = store st))"
proof -
  have info: "get_match_info data = Inr None"
    using assms by (simp add: get_match_info_def py_eq_def)
  then show ?thesis
    by (simp add: process_match_def)
qed

theorem aborted_match_skipped_witness:
  "getpath aborted_payload [K ''info'', K ''endOfGameResult''] = Inr (PStr ''Abort_Unexpected'') \<and>
   get_match_info aborted_payload = Inr None \<and>
   process_match ''americas'' (PStr ''BR1_1'') (crawler0 [Inr (ok_reply aborted_payload)])
     = (Inr (), (crawler0 [])\<lparr>net := \<lparr>replies = [],
                 requests = [MatchDataUrl ''americas'' (PStr ''BR1_1'')], sleeps = []\<rparr>\<rparr>)"
proof -
  have h: "getpath aborted_payload [K ''info'', K ''endOfGameResult''] = Inr (PStr ''Abort_Unexpected'')"
    by (simp add: aborted_payload_def)
  have g: "get_match_data ''americas'' (PStr ''BR1_1'')
             (fetcher (crawler0 [Inr (ok_reply aborted_payload)]),
              net (crawler0 [Inr (ok_reply aborted_payload)]))
           = (Inr aborted_payload, BaseFetcher_init (PStr ''key''),
              \<lparr>replies = [], requests = [MatchDataUrl ''americas'' (PStr ''BR1_1'')], sleeps = []\<rparr>)"
    by (simp add: crawler0_def get_match_data_ok)
  from aborted_match_skipped [OF h, of "''americas''" "PStr ''BR1_1''"
         "crawler0 [Inr (ok_reply aborted_payload)]"] g h
  show ?thesis
    by (simp add: process_match_def crawler0_def match_on_db_def store0_def)
qed

section \<open>Games of duration zero\<close>

lemma dict_literal_raises:
  "(k, Inl e) \<in> set entries \<Longrightarrow> \<exists>e'. dict_literal entries = Inl e'"
proof (induction entries rule: dict_literal.induct)
  case 1
  then show ?case by simp
next
  case (2 k' e'' rest)
  then show ?case by simp
next
  case (3 k' v rest)
  then have "(k, Inl e) \<in> set rest" by auto
  from "3.IH" [OF this] show ?case by auto
qed

lemma cs_per_min_zero:
  assumes "getpath data [K ''info'', K ''gameDuration''] = Inr g" and "py_int g = Inr 0"
  shows "\<exists>e. cs_per_min data participant = Inl e"
    and "total_cs participant = Inr cs \<Longrightarrow> cs_per_min data participant = Inl ZeroDivisionError"
proof -
  show "total_cs participant = Inr cs \<Longrightarrow> cs_per_min data participant = Inl ZeroDivisionError"
    using assms by (simp add: cs_per_min_def true_div_def)
  then show "\<exists>e. cs_per_min data participant = Inl e"
    using assms by (cases "total_cs participant") (simp_all add: cs_per_min_def true_div_def)
qed

lemma player_stats_zero:
  assumes "getpath data [K ''info'', K ''gameDuration''] = Inr g" and "py_int g = Inr 0"
  shows "\<exists>e. player_stats data participant = Inl e"
proof -
  from cs_per_min_zero(1) [OF assms] obtain e where "cs_per_min data participant = Inl e"
    by blast
  then show ?thesis
    unfolding player_stats_def
    by (intro dict_literal_raises [of "''csPerMin''" e]) simp
qed

text \<open>
  C10. For a payload whose \<open>gameDuration\<close> converts to 0 and whose list of
  participants is not empty, \<open>get_player_stats\<close> raises: no stats list is returned.
  Whenever the creep score of the first participant can be computed, the division of
  \<open>csPerMin\<close> is what raises, with ZeroDivisionError.
\<close>

theorem get_player_stats_zero_duration:
  assumes "getpath data [K ''info'', K ''gameDuration''] = Inr g" and "py_int g = Inr 0"
    and "getpath data [K ''info'', K ''participants''] = Inr (PList (participant # rest))"
  shows "(\<exists>e. get_player_stats data =
              Inl (Wrapped ''Error on the treatment of data for player stats list'' e)) \<and>
         (\<forall>cs. total_cs participant = Inr cs \<longrightarrow>
              cs_per_min data participant = Inl ZeroDivisionError)"
proof -
  from player_stats_zero [OF assms(1,2)] obtain e where "player_stats data participant = Inl e"
    by blast
  with assms(3) have "get_player_stats data =
      Inl (Wrapped ''Error on the treatment of data for player stats list'' e)"
    by (simp add: get_player_stats_def wrap_def)
  with cs_per_min_zero(2) [OF assms(1,2)] show ?thesis by blast
qed


theorem get_player_stats_zero_duration_witness:
  "getpath (match_payload ''BR1_2'' ''GameComplete'' 100 0 [participant_json ''late''])
     [K ''info'', K ''gameDuration''] = Inr (PInt 0) \<and>
   get_player_stats (match_payload ''BR1_2'' ''GameComplete'' 100 0 [participant_json ''late''])
     = Inl (Wrapped ''Error on the treatment of data for player stats list'' ZeroDivisionError)"
proof -
  let ?data = "match_payload ''BR1_2'' ''GameComplete'' 100 0 [participant_json ''late'']"
  have g: "getpath ?data [K ''info'', K ''gameDuration''] = Inr (PInt 0)"
    and ps: "getpath ?data [K ''info'', K ''participants''] = Inr (PList [participant_json ''late''])"
    by (simp_all add: match_payload_def)
  have cs: "total_cs (participant_json ''late'') = Inr 60"
    by (simp add: participant_json_def total_cs_def)
  have ps': "player_stats ?data (participant_json ''late'') = Inl ZeroDivisionError"
    by (simp add: payload_eval player_stats_def total_cs_def cs_per_min_def
        true_div_def list_index_def)
  from get_player_stats_zero_duration [OF g _ ps] g ps ps'
  show ?thesis
    by (simp add: get_player_stats_def wrap_def)
qed

section \<open>An error while a match is processed\<close>

text \<open>Cursors only go down, or stay, while matches are processed.\<close>

lemma find_append_Some: "find P xs = Some x \<Longrightarrow> find P (xs @ ys) = Some x"
  by (induction xs) (auto split: if_splits)

lemma cursors_le_refl: "cursors_le s s"
  by (simp add: cursors_le_def)

lemma cursors_le_trans: "cursors_le s1 s2 \<Longrightarrow> cursors_le s2 s3 \<Longrightarrow> cursors_le s1 s3"
  unfolding cursors_le_def by (meson order_trans)

lemma cursors_le_append: "players s' = players s @ rows \<Longrightarrow> cursors_le s s'"
  by (auto simp: cursors_le_def cursor_of_def dest: find_append_Some)

lemma cursors_le_same_players: "players s' = players s \<Longrightarrow> cursors_le s s'"
  by (rule cursors_le_append [of _ _ "[]"]) simp

lemma update_player_if_exists_cursors_le:
  "update_player_if_exists obs md s = (r, s') \<Longrightarrow> cursors_le s s'"
  unfolding cursors_le_def by (blast dest: update_player_if_exists_cursor)

lemma new_players_cursors_le:
  "new_players p_info m_info s = (r, s') \<Longrightarrow> cursors_le s s'"
proof (induction p_info arbitrary: s r s')
  case Nil
  then show ?case by (simp add: cursors_le_refl)
next
  case (Cons d ds)
  show ?case
  proof (cases "dict_get m_info ''matchStart''")
    case (Inl e)
    with Cons.prems show ?thesis by (simp add: cursors_le_refl)
  next
    case (Inr md)
    obtain u s1 where up: "update_player_if_exists d md s = (u, s1)"
      by (cases "update_player_if_exists d md s")
    note le1 = update_player_if_exists_cursors_le [OF up]
    show ?thesis
    proof (cases u)
      case (Inl e)
      with Cons.prems Inr up le1 show ?thesis by simp
    next
      case u: (Inr v)
      obtain r2 s2 where rest: "new_players ds m_info s1 = (r2, s2)"
        by (cases "new_players ds m_info s1")
      with Cons.prems Inr up u have "s' = s2"
        by (cases r2) simp_all
      with Cons.IH [OF rest] le1 show ?thesis by (blast intro: cursors_le_trans)
    qed
  qed
qed

lemma insert_player_list_cursors_le:
  assumes "insert_player_list ds s = (r, s')"
  shows "cursors_le s s'"
proof -
  from assms have "\<exists>rows. players s' = players s @ rows"
    by (auto simp: insert_player_list_def Let_def split: if_splits)
  then show ?thesis by (blast intro: cursors_le_append)
qed

lemma persist_match_cursors_le:
  assumes "persist_match m_info p_info p_stats s = (r, s')"
  shows "cursors_le s s'"
proof -
  obtain r1 s1 where np: "new_players p_info m_info s = (r1, s1)"
    by (cases "new_players p_info m_info s")
  note le1 = new_players_cursors_le [OF np]
  show ?thesis
  proof (cases r1)
    case (Inl e)
    with assms np le1 show ?thesis by (simp add: persist_match_def)
  next
    case (Inr batch)
    obtain r2 s2 where ip: "insert_player_list batch s1 = (r2, s2)"
      by (cases "insert_player_list batch s1")
    note le2 = cursors_le_trans [OF le1 insert_player_list_cursors_le [OF ip]]
    show ?thesis
    proof (cases r2)
      case (Inl e)
      with assms np Inr ip le2 show ?thesis by (simp add: persist_match_def)
    next
      case r2: (Inr u)
      have "players s' = players s2"
        using assms np Inr ip r2
        by (auto simp: persist_match_def insert_match_def insert_stats_list_def
                 split: sum.splits)
      then have "cursors_le s2 s'" by (rule cursors_le_same_players)
      with le2 show ?thesis by (blast intro: cursors_le_trans)
    qed
  qed
qed

lemma process_match_cursors_le:
  "process_match reg m st = (r, st') \<Longrightarrow> cursors_le (store st) (store st')"
  by (auto simp: process_match_def Let_def cursors_le_refl
           split: if_splits prod.splits sum.splits option.splits
           dest: persist_match_cursors_le)

lemma process_matches_cursors_le:
  "process_matches reg ms st = (r, st') \<Longrightarrow> cursors_le (store st) (store st')"
proof (induction ms arbitrary: st)
  case Nil
  then show ?case by (simp add: cursors_le_refl)
next
  case (Cons m ms)
  obtain r1 st1 where pm: "process_match reg m st = (r1, st1)"
    by (cases "process_match reg m st")
  note le1 = process_match_cursors_le [OF pm]
  show ?case
  proof (cases r1)
    case (Inl e)
    with Cons.prems pm le1 show ?thesis by simp
  next
    case (Inr u)
    with Cons.prems pm have "process_matches reg ms st1 = (r, st')" by simp
    from Cons.IH [OF this] le1 show ?thesis by (blast intro: cursors_le_trans)
  qed
qed

lemma process_matches_stop:
  "process_matches reg pre st = (Inr u, st1) \<Longrightarrow> process_match reg m st1 = (Inl e, st2) \<Longrightarrow>
     process_matches reg (pre @ m # post) st = (Inl e, st2)"
proof (induction pre arbitrary: st)
  case Nil
  then show ?case by simp
next
  case (Cons x xs)
  then show ?case by (auto split: prod.splits sum.splits)
qed

lemma next_of_store0:
  "get_next_to_fetch [''na1'', ''br1''] store0 = selected (PStr ''early'') 100"
  by (simp add: get_next_to_fetch_def store_eval selected_def)

lemma collect_script:
  "collect_match_list ''americas'' (selected (PStr ''early'') 100) [] 0
     (BaseFetcher_init (PStr ''key''), \<lparr>replies = script, requests = [], sleeps = []\<rparr>)
   = (Inr ([PStr ''BR1_2'', PStr ''BR1_3''], 0), BaseFetcher_init (PStr ''key''),
      \<lparr>replies = tl script,
        requests = [MatchListUrl ''americas'' (PStr ''early'') 0 0 100], sleeps = []\<rparr>)"
  by (simp add: script_def collect_match_list_page [OF get_match_list_ok] whole_seconds_100)

lemma broken_info:
  "get_match_info broken_payload = Inl (MatchError (PStr ''BR1_2'') (KeyError (K ''gameVersion'')))"
  by (simp add: broken_payload_def get_match_info_def match_info_def py_eq_def)

lemma process_broken:
  "process_match ''americas'' (PStr ''BR1_2'')
     \<lparr>fetcher = BaseFetcher_init (PStr ''key''),
      net = \<lparr>replies = tl script,
             requests = [MatchListUrl ''americas'' (PStr ''early'') 0 0 100], sleeps = []\<rparr>,
      store = store0\<rparr>
   = (Inl (MatchError (PStr ''BR1_2'') (KeyError (K ''gameVersion''))), after_error)"
  by (simp add: process_match_def match_on_db_def store0_def script_def get_match_data_ok
        broken_info after_error_def)

text \<open>
  C6, as the claim states it, fails. The detail of the first match cannot be
  transformed; the worker returns with the exception. The second match is not
  fetched, and the two replies the server had ready are never asked for: there is no
  later pass.
\<close>

theorem worker_stops_at_error:
  "main_region_fetching ''americas'' [''na1'', ''br1''] (PStr ''key'')
     \<lparr>replies = script, requests = [], sleeps = []\<rparr> store0
   = (MatchError (PStr ''BR1_2'') (KeyError (K ''gameVersion'')), after_error)"
  by (simp add: main_region_fetching_def main_loop.simps crawl_player_def next_of_store0
        collect_script process_broken)

text \<open>
  C6, amended. When the processing of one match of the list raises, the matches
  after it are not processed, the round of the outer loop ends with that exception
  before \<open>update_last_fetch\<close>, no cursor has moved forward, and the outer loop ends
  too: the worker stops in the state the failed match left.
\<close>

theorem match_error_ends_worker:
  assumes "collect_match_list reg (get_next_to_fetch regions (store st)) [] 0 (fetcher st, net st)
             = (Inr (pre @ m # post, n), self1, w1)"
    and "process_matches reg pre (st\<lparr>fetcher := self1, net := w1\<rparr>) = (Inr (), st1)"
    and "process_match reg m st1 = (Inl e, st2)"
  shows "process_matches reg (pre @ m # post) (st\<lparr>fetcher := self1, net := w1\<rparr>) = (Inl e, st2) \<and>
         crawl_player reg regions st = (Inl e, st2) \<and>
         main_loop reg regions st = (e, st2) \<and>
         cursors_le (store st) (store st2)"
proof -
  have stop: "process_matches reg (pre @ m # post) (st\<lparr>fetcher := self1, net := w1\<rparr>) = (Inl e, st2)"
    by (rule process_matches_stop [OF assms(2,3)])
  then have cp: "crawl_player reg regions st = (Inl e, st2)"
    using assms(1) by (simp add: crawl_player_def)
  then have ml: "main_loop reg regions st = (e, st2)"
    by (simp add: main_loop.simps [of reg regions st])
  from process_matches_cursors_le [OF stop] have "cursors_le (store st) (store st2)" by simp
  with stop cp ml show ?thesis by simp
qed


theorem match_error_ends_worker_witness:
  "main_loop ''americas'' [''na1'', ''br1''] (crawler0 script)
     = (MatchError (PStr ''BR1_2'') (KeyError (K ''gameVersion'')), after_error) \<and>
   cursor_of (store after_error) (PStr ''early'') = Some 100 \<and>
   cursor_of (store after_error) (PStr ''late'') = Some 200"
proof -
  let ?st = "crawler0 script"
  let ?w1 = "\<lparr>replies = tl script,
        requests = [MatchListUrl ''americas'' (PStr ''early'') 0 0 100], sleeps = []\<rparr>"
  have a1: "collect_match_list ''americas'' (get_next_to_fetch [''na1'', ''br1''] (store ?st)) [] 0
              (fetcher ?st, net ?st)
            = (Inr ([] @ PStr ''BR1_2'' # [PStr ''BR1_3''], 0), BaseFetcher_init (PStr ''key''), ?w1)"
    by (simp add: crawler0_def next_of_store0 collect_script)
  have a2: "process_matches ''americas'' []
              (?st\<lparr>fetcher := BaseFetcher_init (PStr ''key''), net := ?w1\<rparr>)
            = (Inr (), ?st\<lparr>fetcher := BaseFetcher_init (PStr ''key''), net := ?w1\<rparr>)"
    by simp
  have a3: "process_match ''americas'' (PStr ''BR1_2'')
              (?st\<lparr>fetcher := BaseFetcher_init (PStr ''key''), net := ?w1\<rparr>)
            = (Inl (MatchError (PStr ''BR1_2'') (KeyError (K ''gameVersion''))), after_error)"
    using process_broken by (simp add: crawler0_def)
  from match_error_ends_worker [OF a1 a2 a3]
  have ml: "main_loop ''americas'' [''na1'', ''br1''] ?st
              = (MatchError (PStr ''BR1_2'') (KeyError (K ''gameVersion'')), after_error)"
    and le: "cursors_le (store ?st) (store after_error)"
    by blast+
  have st: "store ?st = store0" by (simp add: crawler0_def)
  have c: "cursor_of (store after_error) (PStr ''early'') = Some 100"
    "cursor_of (store after_error) (PStr ''late'') = Some 200"
    by (simp_all add: after_error_def store_eval)
  from ml le st c show ?thesis by simp
qed


end
